theory Spec2Isabelle
  imports Complex_Main "HOL-Library.Sublist" "HOL-Library.AList"
begin

section \<open>The scene graph\<close>

text \<open>
  The script \<^verbatim>\<open>tool_scripts/fix_scene.py\<close> works on a USD stage: a tree of prims, each
  identified by its path. A path is kept as the list of its components, so
  \<^verbatim>\<open>/Environment/Chair_03\<close> is \<open>[''Environment'', ''Chair_03'']\<close>; a prim is a
  descendant of another one when the other path is a prefix of its own. A stage is the
  list of its prims in the order in which \<^verbatim>\<open>Usd.PrimRange\<close> of the pseudo-root
  visits them (depth first, parents before children).

  Of a prim the model keeps what the script reads or writes: the type name (for
  \<^verbatim>\<open>IsA\<close> and the kind filter of the node finder), the four transform attributes
  (\<open>None\<close> when the prim has no such attribute), the visibility attribute, the list of
  applied API schemas, and the two physics attributes that \<^verbatim>\<open>add_colliders\<close> creates.
  Numbers are Python floats in the source; the model takes them as reals.
\<close>

type_synonym sdf_path = "string list"

datatype prim_type =
  Xform | Scope | Mesh | Cube | Sphere | Capsule | Cylinder | Cone | Untyped

datatype api_schema =
    CollisionAPI
  | MeshCollisionAPI
  | PhysxTriangleMeshCollisionAPI
  | RigidBodyAPI
  | OtherAPI string

record prim =
  path :: sdf_path
  typeName :: prim_type
  xformOp_translate :: "real list option"
  xformOp_rotateXYZ :: "real list option"
  xformOp_scale :: "real list option"
  xformOp_orient :: "real list option"
  visibility :: string
  apiSchemas :: "api_schema list"
  collisionEnabled :: "bool option"
  approximation :: "string option"

type_synonym stage = "prim list"

text \<open>\<^verbatim>\<open>prim.IsA(UsdGeom.Mesh)\<close> and \<^verbatim>\<open>prim.IsA(UsdGeom.Gprim)\<close>: a mesh is a
  geometric primitive, and so are the intrinsic shapes; a transform group, a scope or a
  prim without type is not.\<close>

definition is_a_mesh :: "prim \<Rightarrow> bool" where
  "is_a_mesh p = (typeName p = Mesh)"

definition is_a_gprim :: "prim \<Rightarrow> bool" where
  "is_a_gprim p = (typeName p \<noteq> Xform \<and> typeName p \<noteq> Scope \<and> typeName p \<noteq> Untyped)"

text \<open>\<^verbatim>\<open>prim.GetName()\<close>: the last component of the path (empty for the pseudo-root).\<close>

definition get_name :: "prim \<Rightarrow> string" where
  "get_name p = (if path p = [] then [] else last (path p))"

text \<open>\<^verbatim>\<open>str(prim.GetPath())\<close>.\<close>

definition path_str :: "sdf_path \<Rightarrow> string" where
  "path_str pth = (if pth = [] then ''/'' else concat (map (\<lambda>c. ''/'' @ c) pth))"

text \<open>The pseudo-root \<^verbatim>\<open>/\<close> of every stage: a prim without type, attributes and
  schemas, which is no element of the stage list.\<close>

definition pseudo_root :: prim where
  "pseudo_root =
     \<lparr>path = [], typeName = Untyped, xformOp_translate = None, xformOp_rotateXYZ = None,
      xformOp_scale = None, xformOp_orient = None, visibility = [], apiSchemas = [],
      collisionEnabled = None, approximation = None\<rparr>"

text \<open>\<^verbatim>\<open>stage.GetPrimAtPath(path)\<close>: the pseudo-root for the path \<^verbatim>\<open>/\<close>, else the
  prim of the stage with this path; \<open>None\<close> stands for the invalid prim that USD returns
  when nothing lives at the path.\<close>

definition get_prim_at_path :: "stage \<Rightarrow> sdf_path \<Rightarrow> prim option" where
  "get_prim_at_path s pth =
     (if pth = [] then Some pseudo_root else find (\<lambda>p. path p = pth) s)"

text \<open>\<^verbatim>\<open>Usd.PrimRange(root_prim)\<close> for a valid prim: the prim and its descendants, in
  stage order. (The range of the pseudo-root is the whole stage list; the pseudo-root
  itself, which has no transform attribute, no name and no type, is left out.)\<close>

definition prim_range :: "stage \<Rightarrow> prim \<Rightarrow> prim list" where
  "prim_range s root_prim = filter (\<lambda>p. prefix (path root_prim) (path p)) s"

text \<open>\<^verbatim>\<open>prim.HasAPI(A)\<close> and \<^verbatim>\<open>A.Apply(prim)\<close>. The applied schemas are a list, so
  that a schema applied twice would show.\<close>

definition has_api :: "prim \<Rightarrow> api_schema \<Rightarrow> bool" where
  "has_api p a = (a \<in> set (apiSchemas p))"

definition apply_api :: "api_schema \<Rightarrow> prim \<Rightarrow> prim" where
  "apply_api a p = p\<lparr>apiSchemas := apiSchemas p @ [a]\<rparr>"

section \<open>Console output\<close>

definition RED :: string where "RED = CHR 0x1B # ''[91m''"
definition YELLOW :: string where "YELLOW = CHR 0x1B # ''[93m''"
definition GREEN :: string where "GREEN = CHR 0x1B # ''[92m''"
definition RESET :: string where "RESET = CHR 0x1B # ''[0m''"

text \<open>Python's \<^verbatim>\<open>str\<close> of a non-negative integer, for the numbers in the messages.\<close>

fun str_nat :: "nat \<Rightarrow> string" where
  "str_nat n =
     (if n < 10 then [''0123456789'' ! n]
      else str_nat (n div 10) @ [''0123456789'' ! (n mod 10)])"

section \<open>Transform snapshot and verifier\<close>

text \<open>The record that \<^verbatim>\<open>capture_transforms\<close> builds for a prim: a dict with the four
  keys \<^verbatim>\<open>translate\<close>, \<^verbatim>\<open>rotation\<close>, \<^verbatim>\<open>scale\<close>, \<^verbatim>\<open>orient\<close>. Python compares two
  such dicts with \<^verbatim>\<open>==\<close> key by key, which is the equality of the record.\<close>

record transform_data =
  translate :: "real list"
  rotation :: "real list option"
  scale :: "real list option"
  orient :: "real list option"

text \<open>A snapshot is a Python dict from path strings to such records; the association
  list keeps the insertion order, in which \<^verbatim>\<open>items()\<close> iterates.\<close>

type_synonym snapshot = "(string \<times> transform_data) list"

definition capture_prim :: "prim \<Rightarrow> snapshot \<Rightarrow> snapshot" where
  "capture_prim p transforms =
     (case xformOp_translate p of
        None \<Rightarrow> transforms
      | Some t \<Rightarrow>
          AList.update (path_str (path p))
            \<lparr>translate = t, rotation = xformOp_rotateXYZ p,
             scale = xformOp_scale p, orient = xformOp_orient p\<rparr> transforms)"

definition capture_transforms :: "stage \<Rightarrow> sdf_path \<Rightarrow> snapshot" where
  "capture_transforms s root_path =
     (case get_prim_at_path s root_path of
        None \<Rightarrow> []
      | Some root_prim \<Rightarrow> fold capture_prim (prim_range s root_prim) [])"

text \<open>The values \<^verbatim>\<open>transforms_are_equal\<close> can be handed: \<^verbatim>\<open>None\<close>, a float, a Gf
  vector (or quaternion), or one of the dicts above.\<close>

datatype pyval = PyNone | PyFloat real | PyVec "real list" | PyDict transform_data

text \<open>\<^verbatim>\<open>hasattr(x, '__sub__')\<close>: floats and Gf vectors subtract, a dict does not.\<close>

fun has_sub :: "pyval \<Rightarrow> bool" where
  "has_sub (PyFloat _) = True"
| "has_sub (PyVec _) = True"
| "has_sub (PyDict _) = False"
| "has_sub PyNone = False"

text \<open>\<^verbatim>\<open>abs(transform1 - transform2) < tolerance\<close> has a value only for two floats: on
  Gf vectors \<^verbatim>\<open>abs\<close> raises, as does the subtraction of a vector and a float, and the
  bare \<^verbatim>\<open>except\<close> then falls back to \<^verbatim>\<open>==\<close>.\<close>

fun transforms_are_equal :: "pyval \<Rightarrow> pyval \<Rightarrow> real \<Rightarrow> bool" where
  "transforms_are_equal transform1 transform2 tolerance =
     (if transform1 = PyNone \<or> transform2 = PyNone then transform1 = transform2
      else if has_sub transform1 then
        (case (transform1, transform2) of
           (PyFloat a, PyFloat b) \<Rightarrow> \<bar>a - b\<bar> < tolerance
         | _ \<Rightarrow> transform1 = transform2)
      else transform1 = transform2)"

text \<open>The loop of \<^verbatim>\<open>verify_positions_unchanged\<close> over \<^verbatim>\<open>before_transforms.items()\<close>.
  The state is \<open>(changes_detected, total_checked, printed lines)\<close>.\<close>

fun verify_loop ::
  "snapshot \<Rightarrow> snapshot \<Rightarrow> nat \<times> nat \<times> string list \<Rightarrow> nat \<times> nat \<times> string list" where
  "verify_loop [] after_transforms st = st"
| "verify_loop ((prim_path, before_transform) # rest) after_transforms
       (changes_detected, total_checked, out) =
     (case map_of after_transforms prim_path of
        None \<Rightarrow> verify_loop rest after_transforms (changes_detected, total_checked, out)
      | Some after_transform \<Rightarrow>
          (if \<not> transforms_are_equal (PyDict before_transform) (PyDict after_transform)
                 (1 / 1000000)
           then verify_loop rest after_transforms
                  (changes_detected + 1, total_checked + 1,
                   out @ [YELLOW @ ''Position changed for: '' @ prim_path @ RESET])
           else verify_loop rest after_transforms
                  (changes_detected, total_checked + 1, out)))"

text \<open>\<^verbatim>\<open>verify_positions_unchanged\<close>: the printed lines and the returned boolean. (Its
  \<^verbatim>\<open>stage\<close> argument is never used.)\<close>

definition verify_positions_unchanged :: "snapshot \<Rightarrow> snapshot \<Rightarrow> string list \<times> bool" where
  "verify_positions_unchanged before_transforms after_transforms =
     (case verify_loop before_transforms after_transforms (0, 0, []) of
        (changes_detected, total_checked, out) \<Rightarrow>
          (out @
           [if changes_detected = 0
            then '' Position verification: All '' @ str_nat total_checked
                   @ '' object positions preserved''
            else '' Position verification: '' @ str_nat changes_detected @ ''/''
                   @ str_nat total_checked @ '' objects moved''],
           changes_detected = 0))"

section \<open>Classifier and mutator\<close>

text \<open>Line 40 and line 42 of the script.\<close>

definition fine_collider_types :: "string list" where
  "fine_collider_types = [''skirt'', ''_wall'', ''_floor'']"

definition rigid_body_types :: "string list" where
  "rigid_body_types = [''Table'', ''Chair'', ''Rug'']"

text \<open>\<^verbatim>\<open>any(m in prim_name for m in markers)\<close>: Python's \<^verbatim>\<open>in\<close> on strings is the
  test for a contiguous substring.\<close>

definition name_matches :: "string list \<Rightarrow> prim \<Rightarrow> bool" where
  "name_matches markers p = list_ex (\<lambda>m. sublist m (get_name p)) markers"

text \<open>A loop that visits prims of the stage and writes to the visited prim only is the
  map of its body over the visited prims.\<close>

definition for_each_prim :: "(prim \<Rightarrow> bool) \<Rightarrow> (prim \<Rightarrow> prim) \<Rightarrow> stage \<Rightarrow> stage" where
  "for_each_prim visited body s = map (\<lambda>p. if visited p then body p else p) s"

text \<open>The root of a traversal, lines 252 and 253:
  \<^verbatim>\<open>stage.GetPseudoRoot() if root_path is None else stage.GetPrimAtPath(root_path)\<close>.
  The result is the path of the valid prim found, the empty path for the pseudo-root,
  and \<open>None\<close> for an invalid prim, whose \<^verbatim>\<open>Usd.PrimRange\<close> is empty. The pseudo-root
  itself is no prim of the stage list: it is no mesh and its name is empty.\<close>

definition root_prim_path :: "stage \<Rightarrow> sdf_path option \<Rightarrow> sdf_path option" where
  "root_prim_path s root_path =
     (case root_path of
        None \<Rightarrow> Some []
      | Some r \<Rightarrow> map_option path (get_prim_at_path s r))"

definition in_traversal :: "stage \<Rightarrow> sdf_path option \<Rightarrow> prim \<Rightarrow> bool" where
  "in_traversal s root_path p =
     (case root_prim_path s root_path of
        None \<Rightarrow> False
      | Some r \<Rightarrow> prefix r (path p))"

definition traversal :: "stage \<Rightarrow> sdf_path option \<Rightarrow> prim list" where
  "traversal s root_path = filter (in_traversal s root_path) s"

subsection \<open>The helpers of \<^verbatim>\<open>infinigen_sdg_utils\<close>\<close>

text \<open>The module \<^verbatim>\<open>infinigen_sdg_utils\<close> is imported by the script and is not among the
  sources. Its three functions that \<^verbatim>\<open>modify_environment\<close> calls are modelled from
  section 4.1 and section 6 of the specification.\<close>

text \<open>Modelled from the spec: the type filter of \<^verbatim>\<open>find_nodes(markers, root, kind_filter)\<close>
  of the missing module \<^verbatim>\<open>infinigen_sdg_utils\<close>; with no filter every kind passes.\<close>

definition type_passes :: "prim_type option \<Rightarrow> prim \<Rightarrow> bool" where
  "type_passes prim_type p = (case prim_type of None \<Rightarrow> True | Some ty \<Rightarrow> typeName p = ty)"

text \<open>Modelled from the spec: \<^verbatim>\<open>find_nodes(markers, root, kind_filter) -> list_of_nodes\<close>
  of the missing module \<^verbatim>\<open>infinigen_sdg_utils\<close> (\<^verbatim>\<open>find_matching_prims\<close> in the
  script): the nodes under the root whose name contains one of the markers and whose
  kind passes the filter.\<close>

definition find_matching_prims ::
  "stage \<Rightarrow> string list \<Rightarrow> sdf_path option \<Rightarrow> prim_type option \<Rightarrow> prim list" where
  "find_matching_prims s match_strings root_path prim_type =
     filter (\<lambda>p. name_matches match_strings p \<and> type_passes prim_type p)
       (traversal s root_path)"

text \<open>\<^verbatim>\<open>prim.GetAttribute("visibility").Set("invisible")\<close>.\<close>

definition set_invisible :: "prim \<Rightarrow> prim" where
  "set_invisible p = p\<lparr>visibility := ''invisible''\<rparr>"

text \<open>Modelled from the spec: \<^verbatim>\<open>hide_nodes(markers, root)\<close> of the missing module
  \<^verbatim>\<open>infinigen_sdg_utils\<close> (\<^verbatim>\<open>hide_matching_prims\<close> in the script): the nodes under
  the root whose name contains one of the markers are hidden; "hiding is implemented by
  setting a visibility attribute to an invisible value; it never removes nodes from the
  graph". The spec gives the hider the markers and the root and no kind filter: the third
  argument, which the script passes at line 245, does not restrict the nodes hidden.\<close>

definition hide_matching_prims ::
  "string list \<Rightarrow> sdf_path option \<Rightarrow> prim_type option \<Rightarrow> stage \<Rightarrow> stage" where
  "hide_matching_prims match_strings root_path prim_type s =
     for_each_prim (\<lambda>p. in_traversal s root_path p \<and> name_matches match_strings p)
       set_invisible s"

text \<open>Modelled from the spec: \<^verbatim>\<open>attach_rigid_body(node)\<close> of the missing module
  \<^verbatim>\<open>infinigen_sdg_utils\<close> (\<^verbatim>\<open>add_rigid_body_dynamics\<close> in the script): the node gets
  the rigid-body capability marker; "checking for existing capability before attaching
  avoids duplicate attachment". The prim handle denotes the prim at its path.\<close>

definition attach_rigid_body :: "prim \<Rightarrow> prim" where
  "attach_rigid_body p = (if \<not> has_api p RigidBodyAPI then apply_api RigidBodyAPI p else p)"

definition add_rigid_body_dynamics :: "prim \<Rightarrow> stage \<Rightarrow> stage" where
  "add_rigid_body_dynamics prim s = for_each_prim (\<lambda>p. path p = path prim) attach_rigid_body s"

subsection \<open>\<^verbatim>\<open>add_colliders\<close>\<close>

text \<open>The strategy name that selects the PhysX triangle-mesh schema (lines 217 and 262).\<close>

definition triangleMesh :: string where
  "triangleMesh = ''triangleMesh''"

text \<open>The body of the loop of \<^verbatim>\<open>add_colliders\<close> (lines 209 to 227) for one prim.\<close>

definition collide :: "string \<Rightarrow> prim \<Rightarrow> prim" where
  "collide approximation_type desc_prim =
     (let p1 =
        (if is_a_gprim desc_prim
         then (if \<not> has_api desc_prim CollisionAPI
               then apply_api CollisionAPI desc_prim
               else desc_prim)\<lparr>collisionEnabled := Some True\<rparr>
         else desc_prim)
      in if is_a_mesh p1
         then (if approximation_type = triangleMesh
               then (if \<not> has_api p1 PhysxTriangleMeshCollisionAPI
                     then apply_api PhysxTriangleMeshCollisionAPI p1
                     else p1)
               else (if \<not> has_api p1 MeshCollisionAPI
                     then apply_api MeshCollisionAPI p1
                     else p1)\<lparr>approximation := Some approximation_type\<rparr>)
         else p1)"

definition add_colliders :: "prim \<Rightarrow> string \<Rightarrow> stage \<Rightarrow> stage" where
  "add_colliders root_prim approximation_type s =
     for_each_prim (\<lambda>d. prefix (path root_prim) (path d)) (collide approximation_type) s"

subsection \<open>\<^verbatim>\<open>modify_environment\<close>\<close>

text \<open>Lines 260 to 264: the approximation chosen for a mesh.\<close>

definition collider_approx :: "string \<Rightarrow> prim \<Rightarrow> string" where
  "collider_approx coarse_approximation_type prim =
     (if name_matches fine_collider_types prim then triangleMesh
      else coarse_approximation_type)"

text \<open>The body of the loop of lines 255 to 272 for the visited prim. Type and name of a
  prim are fixed during the pass, so they are read from the prim as the traversal found
  it; the writes go to the current stage.\<close>

definition visit :: "string \<Rightarrow> prim \<Rightarrow> stage \<Rightarrow> stage" where
  "visit coarse_approximation_type prim s =
     (if is_a_mesh prim then
        (let s1 = add_colliders prim (collider_approx coarse_approximation_type prim) s
         in if name_matches rigid_body_types prim then add_rigid_body_dynamics prim s1 else s1)
      else s)"

definition modify_environment :: "stage \<Rightarrow> sdf_path option \<Rightarrow> string \<Rightarrow> bool \<Rightarrow> stage" where
  "modify_environment s root_path coarse_approximation_type hide_top_walls =
     (let ceiling_light_meshes = find_matching_prims s [''001_SPLIT_GLA''] root_path (Some Xform);
          s1 = for_each_prim (\<lambda>p. p \<in> set ceiling_light_meshes) set_invisible s;
          s2 = hide_matching_prims [''001_SPLIT_GLA''] root_path (Some Xform) s1;
          s3 = (if hide_top_walls
                then hide_matching_prims [''_exterior'', ''_ceiling''] root_path None s2
                else s2)
      in fold (visit coarse_approximation_type) (traversal s3 root_path) s3)"

text \<open>What \<^verbatim>\<open>modify_environment\<close> prints.\<close>

definition visit_output :: "prim \<Rightarrow> string list" where
  "visit_output prim =
     (if is_a_mesh prim then
        (if name_matches fine_collider_types prim
         then [''Adding triangle mesh collider to '' @ get_name prim] else [])
        @ (if name_matches rigid_body_types prim
           then [''Adding rigid body dynamics to '' @ get_name prim] else [])
      else [])"

definition modify_environment_output :: "stage \<Rightarrow> sdf_path option \<Rightarrow> bool \<Rightarrow> string list" where
  "modify_environment_output s root_path hide_top_walls =
     [''Fixing ceiling lights...'']
     @ (if hide_top_walls then [''Hiding ceiling and exterior walls...''] else [])
     @ concat (map visit_output (traversal s root_path))"

section \<open>Setup and main program\<close>

text \<open>What the script does to the world outside the stage is kept as a list of events, in
  the order of execution: the lines it prints and its calls into the engine.\<close>

datatype event =
    Print string
  | SimulationApp_start
  | New_stage
  | Load_env string
  | Set_default_prim sdf_path
  | App_update
  | Resolve_scale_issues
  | Sys_exit nat

text \<open>What the script asks of the world: \<^verbatim>\<open>os.path.exists\<close>, and the scene import
  \<^verbatim>\<open>infinigen_utils.load_env\<close>, which either returns or raises an exception with a
  message; in both cases it leaves a stage behind (after a failure, whatever was built
  before the exception).\<close>

record world =
  path_exists :: "string \<Rightarrow> bool"
  load_env :: "string \<Rightarrow> string option \<times> stage"

text \<open>The result of \<^verbatim>\<open>parser.parse_args()\<close>, lines 10 to 24.\<close>

record args =
  usd_path :: string
  coarse_approximation :: string
  hide_walls :: bool

definition env_path :: sdf_path where
  "env_path = [''Environment'']"

definition str_bool :: "bool \<Rightarrow> string" where
  "str_bool b = (if b then ''True'' else ''False'')"

definition setup_default_prim :: "stage \<Rightarrow> sdf_path \<Rightarrow> event list \<times> bool" where
  "setup_default_prim s prim_path =
     (case get_prim_at_path s prim_path of
        None \<Rightarrow>
          ([Print (YELLOW @ ''Warning: Prim at path '' @ [CHR 0x27] @ path_str prim_path
                   @ [CHR 0x27] @ '' is not valid. Cannot set as default prim.'' @ RESET)],
           False)
      | Some prim \<Rightarrow>
          ([Set_default_prim prim_path, Print (''Default prim set to: '' @ path_str prim_path)],
           True))"

text \<open>Steps 7 to 9 of \<^verbatim>\<open>setup_infinigen_scene\<close>, lines 167 to 181: the second
  snapshot, the verification, and the rest of the setup. The boolean that the verifier
  returns is bound to \<^verbatim>\<open>position_preserved\<close> and never read.\<close>

definition setup_completion :: "event list" where
  "setup_completion =
     [Print ''Environment setup complete.'',
      Print ''Resolving scaling issues...'',
      Resolve_scale_issues,
      Print ''Scaling issues resolved'',
      Print ''All setup completed'',
      Print ''=== Environment Setup Complete! ==='']"

definition verify_and_finish :: "stage \<Rightarrow> snapshot \<Rightarrow> event list" where
  "verify_and_finish s initial_transforms =
     (let final_transforms = capture_transforms s env_path;
          (out, position_preserved) =
             verify_positions_unchanged initial_transforms final_transforms
      in [Print ''Verifying object positions...''] @ map Print out @ setup_completion)"

text \<open>\<^verbatim>\<open>setup_infinigen_scene\<close>: the events, and the stage as the mutation leaves it.
  The frame update and the scale fix-up of the engine are events only.\<close>

definition setup_infinigen_scene ::
  "world \<Rightarrow> string \<Rightarrow> string \<Rightarrow> bool \<Rightarrow> event list \<times> stage" where
  "setup_infinigen_scene w usd_file_path coarse_approximation_type hide_top_walls =
     (let (err, s) = load_env w usd_file_path;
          initial_transforms = capture_transforms s env_path;
          s' = modify_environment s (Some env_path) coarse_approximation_type hide_top_walls
      in ([Print ''=== Starting Infinigen Environment Setup ==='',
           Print (''File: '' @ usd_file_path),
           Print (''Coarse approximation: '' @ coarse_approximation_type),
           Print (''Hide walls: '' @ str_bool hide_top_walls),
           Print ''Creating new stage...'',
           New_stage,
           Print (''Loading environment: '' @ usd_file_path),
           Load_env usd_file_path]
          @ (case err of
               None \<Rightarrow> [Print (''Environment successfully loaded to: /Environment'' @ RESET)]
             | Some e \<Rightarrow> [Print (RED @ ''Loading failed: '' @ e @ RESET)])
          @ [Print ''Setting /Environment as default prim...'']
          @ fst (setup_default_prim s env_path)
          @ [App_update,
             Print ''Capturing initial object positions...'',
             Print (''Captured '' @ str_nat (length initial_transforms) @ '' object transforms''),
             Print ''Setting up environment...'']
          @ map Print (modify_environment_output s (Some env_path) hide_top_walls)
          @ verify_and_finish s' initial_transforms,
          s'))"

text \<open>The script from line 26 on, up to the viewer loop of line 302: the simulation
  application is started at module level, before the main block checks the file.
  \<^verbatim>\<open>sys.exit(1)\<close> raises \<^verbatim>\<open>SystemExit\<close>, which the handler for \<^verbatim>\<open>Exception\<close>
  of line 294 does not catch.\<close>

datatype outcome = Exited nat | Viewer_loop

definition script :: "world \<Rightarrow> args \<Rightarrow> event list \<times> outcome" where
  "script w a =
     (let usd_file_path = usd_path a;
          started = [SimulationApp_start, Print (''Using file path: '' @ usd_file_path)]
      in if \<not> path_exists w usd_file_path
         then (started
               @ [Print (''File not found: '' @ usd_file_path),
                  Print ''Please check the path and try again.'',
                  Sys_exit 1],
               Exited 1)
         else (started
               @ fst (setup_infinigen_scene w usd_file_path
                        (coarse_approximation a) (hide_walls a)),
               Viewer_loop))"

section \<open>Example scenes\<close>

definition mk_prim :: "sdf_path \<Rightarrow> prim_type \<Rightarrow> prim" where
  "mk_prim pth ty =
     \<lparr>path = pth, typeName = ty, xformOp_translate = Some [0, 0, 0],
      xformOp_rotateXYZ = None, xformOp_scale = None, xformOp_orient = None,
      visibility = ''inherited'', apiSchemas = [], collisionEnabled = None,
      approximation = None\<rparr>"

text \<open>A wall mesh with a lamp mesh below it.\<close>

definition wall_scene :: stage where
  "wall_scene =
     [mk_prim [''Environment''] Xform,
      mk_prim [''Environment'', ''room_wall''] Mesh,
      mk_prim [''Environment'', ''room_wall'', ''Lamp''] Mesh]"

text \<open>A chair mesh.\<close>

definition chair_scene :: stage where
  "chair_scene =
     [mk_prim [''Environment''] Xform,
      mk_prim [''Environment'', ''Chair_03''] Mesh]"

text \<open>A lamp mesh with a wall mesh below it.\<close>

definition lamp_scene :: stage where
  "lamp_scene =
     [mk_prim [''Environment''] Xform,
      mk_prim [''Environment'', ''Lamp''] Mesh,
      mk_prim [''Environment'', ''Lamp'', ''x_wall''] Mesh]"

text \<open>A ceiling light as a transform group with its mesh, an exterior wall, and a
  transform group whose name has the lighting marker and the ceiling marker.\<close>

definition light_scene :: stage where
  "light_scene =
     [mk_prim [''Environment''] Xform,
      mk_prim [''Environment'', ''Light_001_SPLIT_GLA''] Xform,
      mk_prim [''Environment'', ''Light_001_SPLIT_GLA'', ''Shade_001_SPLIT_GLA''] Mesh,
      mk_prim [''Environment'', ''north_exterior''] Xform,
      mk_prim [''Environment'', ''room_ceiling_001_SPLIT_GLA''] Xform]"

definition snap_before :: snapshot where
  "snap_before =
     [(''/Environment/a'',
       \<lparr>translate = [0, 0, 0], rotation = None, scale = None, orient = None\<rparr>)]"

definition snap_after :: snapshot where
  "snap_after =
     [(''/Environment/a'',
       \<lparr>translate = [1 / 1048576, 0, 0], rotation = None, scale = None, orient = None\<rparr>)]"

text \<open>A snapshot in which the chair stands elsewhere than in the chair scene.\<close>

definition snap_moved :: snapshot where
  "snap_moved =
     [(''/Environment/Chair_03'',
       \<lparr>translate = [1, 0, 0], rotation = None, scale = None, orient = None\<rparr>)]"

definition world_missing_file :: world where
  "world_missing_file = \<lparr>path_exists = (\<lambda>f. False), load_env = (\<lambda>f. (None, chair_scene))\<rparr>"

definition world_failed_load :: world where
  "world_failed_load =
     \<lparr>path_exists = (\<lambda>f. True), load_env = (\<lambda>f. (Some ''cannot open layer'', []))\<rparr>"

definition args0 :: args where
  "args0 = \<lparr>usd_path = ''scene.usdc'', coarse_approximation = ''convexHull'', hide_walls = True\<rparr>"

section \<open>The pass, prim by prim\<close>

text \<open>Every step of \<^verbatim>\<open>modify_environment\<close> maps a function over the prims of the stage.
  The three functions below say what one visit of the loop, the hiding steps, and the
  whole pass do to a single prim \<open>d\<close> of the stage; the lemma \<open>modify_environment_map\<close>
  proves that the pass is the map of \<open>pass1\<close>.\<close>

definition visit1 :: "string \<Rightarrow> prim \<Rightarrow> prim \<Rightarrow> prim" where
  "visit1 c v d =
     (if is_a_mesh v then
        (let d1 = (if prefix (path v) (path d) then collide (collider_approx c v) d else d)
         in if name_matches rigid_body_types v \<and> path d1 = path v
            then attach_rigid_body d1 else d1)
      else d)"

definition hide1 :: "stage \<Rightarrow> sdf_path option \<Rightarrow> bool \<Rightarrow> prim \<Rightarrow> prim" where
  "hide1 s root_path hide_top_walls p =
     (if in_traversal s root_path p \<and>
         (name_matches [''001_SPLIT_GLA''] p \<or>
          hide_top_walls \<and> name_matches [''_exterior'', ''_ceiling''] p)
      then set_invisible p else p)"

definition pass1 :: "stage \<Rightarrow> sdf_path option \<Rightarrow> string \<Rightarrow> bool \<Rightarrow> prim \<Rightarrow> prim" where
  "pass1 s r c h d = fold (visit1 c) (traversal s r) (hide1 s r h d)"

text \<open>A prim with its visibility, its applied schemas and its two physics attributes
  blanked: what is left is the path, the type and the four transform attributes.\<close>

definition outside_markers :: "prim \<Rightarrow> prim" where
  "outside_markers p =
     p\<lparr>visibility := [], apiSchemas := [], collisionEnabled := None, approximation := None\<rparr>"

text \<open>The state in which a visit leaves a prim: \<open>collided a d\<close> says that
  \<^verbatim>\<open>add_colliders\<close> with approximation \<open>a\<close> has nothing left to do on \<open>d\<close>, and
  \<open>settled c v d\<close> that the visit of \<open>v\<close> has nothing left to do on \<open>d\<close>.\<close>

definition collided :: "string \<Rightarrow> prim \<Rightarrow> bool" where
  "collided a d =
     ((is_a_gprim d \<longrightarrow> has_api d CollisionAPI \<and> collisionEnabled d = Some True) \<and>
      (is_a_mesh d \<longrightarrow>
         (if a = triangleMesh then has_api d PhysxTriangleMeshCollisionAPI
          else has_api d MeshCollisionAPI \<and> approximation d = Some a)))"

definition settled :: "string \<Rightarrow> prim \<Rightarrow> prim \<Rightarrow> bool" where
  "settled c v d =
     (is_a_mesh v \<longrightarrow>
        (prefix (path v) (path d) \<longrightarrow> collided (collider_approx c v) d) \<and>
        (name_matches rigid_body_types v \<and> path d = path v \<longrightarrow> has_api d RigidBodyAPI))"

text \<open>The calls into the engine among the events, in order, without the printed lines.\<close>

definition calls :: "event list \<Rightarrow> event list" where
  "calls events = filter (\<lambda>e. case e of Print x \<Rightarrow> False | _ \<Rightarrow> True) events"

section \<open>Lemmas\<close>

lemma collide_path [simp]: "path (collide a d) = path d"
  by (simp add: collide_def apply_api_def Let_def)

lemma collide_typeName [simp]: "typeName (collide a d) = typeName d"
  by (simp add: collide_def apply_api_def Let_def)

lemma attach_path [simp]: "path (attach_rigid_body d) = path d"
  by (simp add: attach_rigid_body_def apply_api_def)

lemma attach_typeName [simp]: "typeName (attach_rigid_body d) = typeName d"
  by (simp add: attach_rigid_body_def apply_api_def)

lemma set_invisible_path [simp]: "path (set_invisible d) = path d"
  by (simp add: set_invisible_def)

lemma set_invisible_typeName [simp]: "typeName (set_invisible d) = typeName d"
  by (simp add: set_invisible_def)

lemma visit1_path [simp]: "path (visit1 c v d) = path d"
  by (simp add: visit1_def Let_def)

lemma visit1_typeName [simp]: "typeName (visit1 c v d) = typeName d"
  by (simp add: visit1_def Let_def)

lemma hide1_path [simp]: "path (hide1 s r h d) = path d"
  by (simp add: hide1_def)

lemma hide1_typeName [simp]: "typeName (hide1 s r h d) = typeName d"
  by (simp add: hide1_def)

lemma fold_visit1_path [simp]: "path (fold (visit1 c) vs d) = path d"
  by (induction vs arbitrary: d) simp_all

lemma fold_visit1_typeName [simp]: "typeName (fold (visit1 c) vs d) = typeName d"
  by (induction vs arbitrary: d) simp_all

lemma visit_map: "visit c v s = map (visit1 c v) s"
proof (cases "is_a_mesh v")
  case True
  then show ?thesis
    by (simp add: visit_def visit1_def add_colliders_def add_rigid_body_dynamics_def
        for_each_prim_def Let_def)
next
  case False
  then have "visit1 c v = (\<lambda>d. d)"
    by (simp add: visit1_def fun_eq_iff)
  with False show ?thesis by (simp add: visit_def)
qed

lemma fold_visit_map: "fold (visit c) vs s = map (fold (visit1 c) vs) s"
  by (induction vs arbitrary: s) (simp_all add: visit_map comp_def)

text \<open>What a visit does depends on the visited prim through its path and type only.\<close>

lemma visit1_cong:
  "path v = path v' \<Longrightarrow> typeName v = typeName v' \<Longrightarrow> visit1 c v = visit1 c v'"
  by (rule ext)
    (simp add: visit1_def is_a_mesh_def collider_approx_def name_matches_def get_name_def)

lemma fold_visit1_map:
  assumes "\<And>v. path (g v) = path v" "\<And>v. typeName (g v) = typeName v"
  shows "fold (visit1 c) (map g vs) d = fold (visit1 c) vs d"
proof (induction vs arbitrary: d)
  case Nil
  show ?case by simp
next
  case (Cons v vs)
  have "visit1 c (g v) = visit1 c v"
    by (rule visit1_cong) (simp_all add: assms)
  then show ?case by (simp add: Cons.IH)
qed

lemma find_path_map:
  assumes "\<And>p. path (g p) = path p"
  shows "find (\<lambda>p. path p = pth) (map g s) = map_option g (find (\<lambda>p. path p = pth) s)"
  by (induction s) (simp_all add: assms)

lemma get_prim_at_path_map:
  assumes "\<And>p. path (g p) = path p" and "pth \<noteq> []"
  shows "get_prim_at_path (map g s) pth = map_option g (get_prim_at_path s pth)"
  using assms(2) by (simp add: get_prim_at_path_def find_path_map [OF assms(1)])

lemma get_prim_at_path_root: "get_prim_at_path s [] = Some pseudo_root"
  by (simp add: get_prim_at_path_def)

lemma root_prim_path_map:
  assumes "\<And>p. path (g p) = path p"
  shows "root_prim_path (map g s) r = root_prim_path s r"
proof (cases r)
  case None
  then show ?thesis by (simp add: root_prim_path_def)
next
  case (Some x)
  show ?thesis
  proof (cases "x = []")
    case True
    with Some show ?thesis
      by (simp add: root_prim_path_def get_prim_at_path_root)
  next
    case False
    with Some show ?thesis
      by (cases "get_prim_at_path s x")
        (simp_all add: root_prim_path_def get_prim_at_path_map [OF assms False] assms)
  qed
qed

lemma in_traversal_map:
  assumes "\<And>p. path (g p) = path p"
  shows "in_traversal (map g s) r = in_traversal s r"
  by (rule ext) (simp add: in_traversal_def root_prim_path_map [OF assms])

lemma in_traversal_path:
  "path p = path q \<Longrightarrow> in_traversal s r p = in_traversal s r q"
  by (simp add: in_traversal_def split: option.splits)

lemma traversal_map:
  assumes "\<And>p. path (g p) = path p"
  shows "traversal (map g s) r = map g (traversal s r)"
  by (simp add: traversal_def in_traversal_map [OF assms] filter_map comp_def
      in_traversal_path [OF assms])

lemma name_matches_path: "path p = path q \<Longrightarrow> name_matches ms p = name_matches ms q"
  by (simp add: name_matches_def get_name_def)

lemma found_loop:
  "for_each_prim (\<lambda>p. p \<in> set (find_matching_prims s ms r ty)) set_invisible s
     = map (\<lambda>p. if in_traversal s r p \<and> name_matches ms p \<and> type_passes ty p
                 then set_invisible p else p) s"
  unfolding for_each_prim_def find_matching_prims_def traversal_def
  by (rule map_cong) auto

lemma hide_matching_prims_map:
  assumes "\<And>p. path (g p) = path p"
  shows "hide_matching_prims ms r ty (map g s)
     = map (\<lambda>p. if in_traversal s r p \<and> name_matches ms p
                 then set_invisible (g p) else g p) s"
proof -
  have a: "in_traversal (map g s) r (g p) = in_traversal s r p" for p
    using in_traversal_path [of "g p" p] by (simp add: in_traversal_map [OF assms] assms)
  have b: "name_matches ms (g p) = name_matches ms p" for p
    by (rule name_matches_path) (rule assms)
  show ?thesis
    by (simp add: hide_matching_prims_def for_each_prim_def a b)
qed

lemma set_invisible_idem [simp]: "set_invisible (set_invisible p) = set_invisible p"
  by (simp add: set_invisible_def)

text \<open>The three hiding steps of lines 240 to 250 together.\<close>

lemma hide_steps:
  "(let ceiling_light_meshes = find_matching_prims s [''001_SPLIT_GLA''] r (Some Xform);
        s1 = for_each_prim (\<lambda>p. p \<in> set ceiling_light_meshes) set_invisible s;
        s2 = hide_matching_prims [''001_SPLIT_GLA''] r (Some Xform) s1
    in if h then hide_matching_prims [''_exterior'', ''_ceiling''] r None s2 else s2)
   = map (hide1 s r h) s"
proof -
  define g1 where "g1 = (\<lambda>p. if in_traversal s r p \<and> name_matches [''001_SPLIT_GLA''] p
      \<and> type_passes (Some Xform) p then set_invisible p else p)"
  have g1_path: "path (g1 p) = path p" for p
    by (simp add: g1_def)
  have s1: "for_each_prim
      (\<lambda>p. p \<in> set (find_matching_prims s [''001_SPLIT_GLA''] r (Some Xform))) set_invisible s
      = map g1 s"
    by (simp add: found_loop g1_def)
  have s2: "hide_matching_prims [''001_SPLIT_GLA''] r (Some Xform) (map g1 s)
      = map (hide1 s r False) s"
    unfolding hide_matching_prims_map [of g1, OF g1_path]
    by (rule map_cong) (auto simp: hide1_def g1_def)
  have s3: "hide_matching_prims [''_exterior'', ''_ceiling''] r None (map (hide1 s r False) s)
      = map (hide1 s r True) s"
    unfolding hide_matching_prims_map [of "hide1 s r False", OF hide1_path]
    by (rule map_cong) (auto simp: hide1_def)
  show ?thesis
    by (cases h) (simp_all add: Let_def s1 s2 s3)
qed

lemma modify_environment_map: "modify_environment s r c h = map (pass1 s r c h) s"
proof -
  have "modify_environment s r c h
      = fold (visit c) (traversal (map (hide1 s r h) s) r) (map (hide1 s r h) s)"
    using hide_steps [of s r h] by (simp add: modify_environment_def Let_def)
  also have "\<dots> = map (fold (visit1 c) (map (hide1 s r h) (traversal s r))) (map (hide1 s r h) s)"
    by (simp add: fold_visit_map traversal_map)
  also have "\<dots> = map (pass1 s r c h) s"
    by (simp add: pass1_def fold_visit1_map)
  finally show ?thesis .
qed

subsection \<open>The pass leaves path, type and transform attributes alone\<close>

lemma collide_frame: "outside_markers (collide a d) = outside_markers d"
  by (simp add: collide_def outside_markers_def apply_api_def Let_def)

lemma attach_frame: "outside_markers (attach_rigid_body d) = outside_markers d"
  by (simp add: attach_rigid_body_def outside_markers_def apply_api_def)

lemma set_invisible_frame: "outside_markers (set_invisible d) = outside_markers d"
  by (simp add: set_invisible_def outside_markers_def)

lemma visit1_frame: "outside_markers (visit1 c v d) = outside_markers d"
  by (simp add: visit1_def Let_def collide_frame attach_frame)

lemma fold_visit1_frame: "outside_markers (fold (visit1 c) vs d) = outside_markers d"
  by (induction vs arbitrary: d) (simp_all add: visit1_frame)

lemma pass1_frame: "outside_markers (pass1 s r c h d) = outside_markers d"
  by (simp add: pass1_def fold_visit1_frame hide1_def set_invisible_frame)

lemma outside_markers_fields:
  "outside_markers p = outside_markers q \<Longrightarrow>
   path p = path q \<and> typeName p = typeName q \<and> xformOp_translate p = xformOp_translate q \<and>
   xformOp_rotateXYZ p = xformOp_rotateXYZ q \<and> xformOp_scale p = xformOp_scale q \<and>
   xformOp_orient p = xformOp_orient q"
  by (cases p, cases q) (simp add: outside_markers_def)

lemma capture_prim_frame:
  "outside_markers p = outside_markers q \<Longrightarrow> capture_prim p = capture_prim q"
  by (rule ext) (use outside_markers_fields [of p q] in \<open>auto simp: capture_prim_def split: option.splits\<close>)

lemma fold_capture_map:
  assumes "\<And>p. outside_markers (g p) = outside_markers p"
  shows "fold capture_prim (map g xs) acc = fold capture_prim xs acc"
  by (induction xs arbitrary: acc) (simp_all add: capture_prim_frame [OF assms])

lemma capture_transforms_map:
  assumes "\<And>p. outside_markers (g p) = outside_markers p"
  shows "capture_transforms (map g s) rp = capture_transforms s rp"
proof -
  have pth: "path (g p) = path p" for p
    using outside_markers_fields [OF assms [of p]] by simp
  have rng: "prim_range (map g s) y = map g (prim_range s x)" if "path y = path x" for x y
    by (simp add: prim_range_def filter_map comp_def pth that)
  show ?thesis
  proof (cases "rp = []")
    case True
    then show ?thesis
      by (simp add: capture_transforms_def get_prim_at_path_root rng [of pseudo_root pseudo_root]
          fold_capture_map [of g, OF assms])
  next
    case False
    show ?thesis
      by (cases "get_prim_at_path s rp")
        (simp_all add: capture_transforms_def get_prim_at_path_map [of g, OF pth False]
          rng pth fold_capture_map [of g, OF assms])
  qed
qed

lemma is_a_mesh_gprim: "is_a_mesh d \<Longrightarrow> is_a_gprim d"
  by (simp add: is_a_mesh_def is_a_gprim_def)

lemma collide_apis:
  "set (apiSchemas (collide a d))
     = set (apiSchemas d)
       \<union> (if is_a_gprim d then {CollisionAPI} else {})
       \<union> (if is_a_mesh d
          then (if a = triangleMesh then {PhysxTriangleMeshCollisionAPI} else {MeshCollisionAPI})
          else {})"
proof (cases "is_a_mesh d")
  case True
  then show ?thesis
    using is_a_mesh_gprim [OF True]
    by (auto simp: collide_def has_api_def apply_api_def Let_def is_a_mesh_def)
next
  case False
  then show ?thesis
    by (auto simp: collide_def has_api_def apply_api_def Let_def is_a_mesh_def)
qed

lemma attach_apis:
  "set (apiSchemas (attach_rigid_body d)) = insert RigidBodyAPI (set (apiSchemas d))"
  by (auto simp: attach_rigid_body_def has_api_def apply_api_def)

lemma attach_fields [simp]:
  "approximation (attach_rigid_body d) = approximation d"
  "collisionEnabled (attach_rigid_body d) = collisionEnabled d"
  "visibility (attach_rigid_body d) = visibility d"
  by (simp_all add: attach_rigid_body_def apply_api_def)

lemma collide_visibility [simp]: "visibility (collide a d) = visibility d"
  by (simp add: collide_def apply_api_def Let_def)

lemma collide_approximation:
  "approximation (collide a d)
     = (if is_a_mesh d \<and> a \<noteq> triangleMesh then Some a else approximation d)"
  by (simp add: collide_def apply_api_def Let_def is_a_mesh_def)

lemma collide_collisionEnabled:
  "collisionEnabled (collide a d) = (if is_a_gprim d then Some True else collisionEnabled d)"
  by (simp add: collide_def apply_api_def Let_def is_a_mesh_def)

lemma is_a_mesh_collide [simp]: "is_a_mesh (collide a d) = is_a_mesh d"
  by (simp add: is_a_mesh_def)

lemma is_a_gprim_collide [simp]: "is_a_gprim (collide a d) = is_a_gprim d"
  by (simp add: is_a_gprim_def)

lemma is_a_mesh_visit1 [simp]: "is_a_mesh (visit1 c v d) = is_a_mesh d"
  by (simp add: is_a_mesh_def)

lemma is_a_gprim_visit1 [simp]: "is_a_gprim (visit1 c v d) = is_a_gprim d"
  by (simp add: is_a_gprim_def)

text \<open>Whether a visit of \<open>v\<close> reaches the prim \<open>d\<close>, and with which approximation.\<close>

lemma visit1_has_tri:
  "has_api (visit1 c v d) PhysxTriangleMeshCollisionAPI
     = (has_api d PhysxTriangleMeshCollisionAPI \<or>
        is_a_mesh d \<and> is_a_mesh v \<and> prefix (path v) (path d)
          \<and> collider_approx c v = triangleMesh)"
  by (auto simp: visit1_def Let_def has_api_def collide_apis attach_apis)

lemma visit1_has_mesh_collision:
  "has_api (visit1 c v d) MeshCollisionAPI
     = (has_api d MeshCollisionAPI \<or>
        is_a_mesh d \<and> is_a_mesh v \<and> prefix (path v) (path d)
          \<and> collider_approx c v \<noteq> triangleMesh)"
  by (auto simp: visit1_def Let_def has_api_def collide_apis attach_apis)

lemma visit1_has_collision:
  "has_api (visit1 c v d) CollisionAPI
     = (has_api d CollisionAPI \<or>
        is_a_gprim d \<and> is_a_mesh v \<and> prefix (path v) (path d))"
  by (auto simp: visit1_def Let_def has_api_def collide_apis attach_apis)

lemma visit1_approximation:
  "approximation (visit1 c v d)
     = (if is_a_mesh d \<and> is_a_mesh v \<and> prefix (path v) (path d)
           \<and> collider_approx c v \<noteq> triangleMesh
        then Some (collider_approx c v) else approximation d)"
  by (auto simp: visit1_def Let_def collide_approximation)

lemma visit1_collisionEnabled:
  "collisionEnabled (visit1 c v d)
     = (if is_a_gprim d \<and> is_a_mesh v \<and> prefix (path v) (path d)
        then Some True else collisionEnabled d)"
  by (auto simp: visit1_def Let_def collide_collisionEnabled)

lemma visit1_visibility [simp]: "visibility (visit1 c v d) = visibility d"
  by (simp add: visit1_def Let_def)

lemma collider_approx_coarse:
  "collider_approx c v \<noteq> triangleMesh \<Longrightarrow> collider_approx c v = c"
  by (simp add: collider_approx_def split: if_splits)


lemma fold_visit1_has_tri:
  "has_api (fold (visit1 c) vs d) PhysxTriangleMeshCollisionAPI
     = (has_api d PhysxTriangleMeshCollisionAPI \<or>
        is_a_mesh d \<and> list_ex (\<lambda>v. is_a_mesh v \<and> prefix (path v) (path d)
          \<and> collider_approx c v = triangleMesh) vs)"
proof (induction vs arbitrary: d)
  case Nil
  show ?case by simp
next
  case (Cons v vs)
  show ?case
    unfolding fold_simps Cons.IH [of "visit1 c v d"] visit1_has_tri
    by (simp only: visit1_path is_a_mesh_visit1 list_ex_Cons_iff) blast
qed

lemma fold_visit1_has_mesh_collision:
  "has_api (fold (visit1 c) vs d) MeshCollisionAPI
     = (has_api d MeshCollisionAPI \<or>
        is_a_mesh d \<and> list_ex (\<lambda>v. is_a_mesh v \<and> prefix (path v) (path d)
          \<and> collider_approx c v \<noteq> triangleMesh) vs)"
proof (induction vs arbitrary: d)
  case Nil
  show ?case by simp
next
  case (Cons v vs)
  show ?case
    unfolding fold_simps Cons.IH [of "visit1 c v d"] visit1_has_mesh_collision
    by (simp only: visit1_path is_a_mesh_visit1 list_ex_Cons_iff) blast
qed

lemma fold_visit1_has_collision:
  "has_api (fold (visit1 c) vs d) CollisionAPI
     = (has_api d CollisionAPI \<or>
        is_a_gprim d \<and> list_ex (\<lambda>v. is_a_mesh v \<and> prefix (path v) (path d)) vs)"
proof (induction vs arbitrary: d)
  case Nil
  show ?case by simp
next
  case (Cons v vs)
  show ?case
    unfolding fold_simps Cons.IH [of "visit1 c v d"] visit1_has_collision
    by (simp only: visit1_path is_a_gprim_visit1 list_ex_Cons_iff) blast
qed

lemma fold_visit1_approximation:
  "approximation (fold (visit1 c) vs d)
     = (if is_a_mesh d \<and> list_ex (\<lambda>v. is_a_mesh v \<and> prefix (path v) (path d)
            \<and> collider_approx c v \<noteq> triangleMesh) vs
        then Some c else approximation d)"
proof (induction vs arbitrary: d)
  case Nil
  show ?case by simp
next
  case (Cons v vs)
  show ?case
  proof (cases "is_a_mesh d \<and> is_a_mesh v \<and> prefix (path v) (path d)
      \<and> collider_approx c v \<noteq> triangleMesh")
    case True
    then have "approximation (visit1 c v d) = Some c"
      using collider_approx_coarse [of c v] by (simp add: visit1_approximation)
    with True show ?thesis
      by (simp add: Cons.IH)
  next
    case False
    then have "approximation (visit1 c v d) = approximation d"
      by (auto simp: visit1_approximation)
    with False show ?thesis
      by (simp add: Cons.IH) blast
  qed
qed

lemma fold_visit1_collisionEnabled:
  "collisionEnabled (fold (visit1 c) vs d)
     = (if is_a_gprim d \<and> list_ex (\<lambda>v. is_a_mesh v \<and> prefix (path v) (path d)) vs
        then Some True else collisionEnabled d)"
proof (induction vs arbitrary: d)
  case Nil
  show ?case by simp
next
  case (Cons v vs)
  show ?case
  proof (cases "is_a_gprim d \<and> is_a_mesh v \<and> prefix (path v) (path d)")
    case True
    then have "collisionEnabled (visit1 c v d) = Some True"
      by (simp add: visit1_collisionEnabled)
    with True show ?thesis
      by (simp add: Cons.IH)
  next
    case False
    then have "collisionEnabled (visit1 c v d) = collisionEnabled d"
      by (auto simp: visit1_collisionEnabled)
    with False show ?thesis
      by (simp add: Cons.IH) blast
  qed
qed

lemma fold_visit1_visibility [simp]: "visibility (fold (visit1 c) vs d) = visibility d"
  by (induction vs arbitrary: d) simp_all

subsection \<open>What the pass does to one prim\<close>

lemma hide1_fields [simp]:
  "apiSchemas (hide1 s r h d) = apiSchemas d"
  "approximation (hide1 s r h d) = approximation d"
  "collisionEnabled (hide1 s r h d) = collisionEnabled d"
  by (simp_all add: hide1_def set_invisible_def)

lemma has_api_hide1 [simp]: "has_api (hide1 s r h d) a = has_api d a"
  by (simp add: has_api_def)

lemma is_a_mesh_hide1 [simp]: "is_a_mesh (hide1 s r h d) = is_a_mesh d"
  by (simp add: is_a_mesh_def)

lemma is_a_gprim_hide1 [simp]: "is_a_gprim (hide1 s r h d) = is_a_gprim d"
  by (simp add: is_a_gprim_def)

lemma pass1_visibility:
  "visibility (pass1 s r c h d)
     = (if in_traversal s r d \<and>
           (name_matches [''001_SPLIT_GLA''] d \<or>
            h \<and> name_matches [''_exterior'', ''_ceiling''] d)
        then ''invisible'' else visibility d)"
  by (auto simp: pass1_def hide1_def set_invisible_def)

lemma pass1_has_tri:
  "has_api (pass1 s r c h d) PhysxTriangleMeshCollisionAPI
     = (has_api d PhysxTriangleMeshCollisionAPI \<or>
        is_a_mesh d \<and> list_ex (\<lambda>v. is_a_mesh v \<and> prefix (path v) (path d)
          \<and> collider_approx c v = triangleMesh) (traversal s r))"
  by (simp add: pass1_def fold_visit1_has_tri)

lemma pass1_has_mesh_collision:
  "has_api (pass1 s r c h d) MeshCollisionAPI
     = (has_api d MeshCollisionAPI \<or>
        is_a_mesh d \<and> list_ex (\<lambda>v. is_a_mesh v \<and> prefix (path v) (path d)
          \<and> collider_approx c v \<noteq> triangleMesh) (traversal s r))"
  by (simp add: pass1_def fold_visit1_has_mesh_collision)

lemma pass1_has_collision:
  "has_api (pass1 s r c h d) CollisionAPI
     = (has_api d CollisionAPI \<or>
        is_a_gprim d \<and> list_ex (\<lambda>v. is_a_mesh v \<and> prefix (path v) (path d)) (traversal s r))"
  by (simp add: pass1_def fold_visit1_has_collision)

lemma pass1_approximation:
  "approximation (pass1 s r c h d)
     = (if is_a_mesh d \<and> list_ex (\<lambda>v. is_a_mesh v \<and> prefix (path v) (path d)
            \<and> collider_approx c v \<noteq> triangleMesh) (traversal s r)
        then Some c else approximation d)"
  by (simp add: pass1_def fold_visit1_approximation)

lemma pass1_collisionEnabled:
  "collisionEnabled (pass1 s r c h d)
     = (if is_a_gprim d \<and> list_ex (\<lambda>v. is_a_mesh v \<and> prefix (path v) (path d)) (traversal s r)
        then Some True else collisionEnabled d)"
  by (simp add: pass1_def fold_visit1_collisionEnabled)

lemma pass1_path [simp]: "path (pass1 s r c h d) = path d"
  by (simp add: pass1_def)

lemma modify_environment_nth:
  "i < length s \<Longrightarrow> modify_environment s r c h ! i = pass1 s r c h (s ! i)"
  by (simp add: modify_environment_map)

lemma modify_environment_length [simp]: "length (modify_environment s r c h) = length s"
  by (simp add: modify_environment_map)

lemma in_traversal_mem:
  "i < length s \<Longrightarrow> in_traversal s r (s ! i) \<Longrightarrow> s ! i \<in> set (traversal s r)"
  by (simp add: traversal_def)

text \<open>A mesh of the traversal is reached by its own visit.\<close>

lemma own_visit:
  assumes "i < length s" "in_traversal s r (s ! i)" "is_a_mesh (s ! i)" "P (s ! i)"
  shows "list_ex (\<lambda>v. is_a_mesh v \<and> prefix (path v) (path (s ! i)) \<and> P v) (traversal s r)"
  unfolding list_ex_iff using in_traversal_mem [OF assms(1,2)] assms(3,4) by auto

subsection \<open>A second pass finds nothing to do\<close>

lemma collided_fix: "collided a d \<Longrightarrow> collide a d = d"
  by (cases d) (auto simp: collided_def collide_def has_api_def apply_api_def Let_def
      is_a_mesh_def is_a_gprim_def split: if_splits)

lemma attach_fix: "has_api d RigidBodyAPI \<Longrightarrow> attach_rigid_body d = d"
  by (simp add: attach_rigid_body_def)

lemma settled_fix: "settled c v d \<Longrightarrow> visit1 c v d = d"
  by (auto simp: settled_def visit1_def Let_def collided_fix attach_fix)

lemma visit1_has_rigid:
  "has_api (visit1 c v d) RigidBodyAPI
     = (has_api d RigidBodyAPI \<or>
        is_a_mesh v \<and> name_matches rigid_body_types v \<and> path d = path v)"
  by (auto simp: visit1_def Let_def has_api_def collide_apis attach_apis)

lemma settled_iff:
  "settled c v d =
     (is_a_mesh v \<longrightarrow>
        (prefix (path v) (path d) \<longrightarrow>
           (is_a_gprim d \<longrightarrow> has_api d CollisionAPI \<and> collisionEnabled d = Some True) \<and>
           (is_a_mesh d \<longrightarrow>
              (if collider_approx c v = triangleMesh
               then has_api d PhysxTriangleMeshCollisionAPI
               else has_api d MeshCollisionAPI \<and> approximation d = Some c))) \<and>
        (name_matches rigid_body_types v \<and> path d = path v \<longrightarrow> has_api d RigidBodyAPI))"
  using collider_approx_coarse [of c v] by (auto simp: settled_def collided_def)

lemma settled_visit1: "settled c v (visit1 c v d)"
  unfolding settled_iff
  using collider_approx_coarse [of c v]
  by (simp add: visit1_has_tri visit1_has_mesh_collision visit1_has_collision
      visit1_approximation visit1_collisionEnabled visit1_has_rigid)

lemma settled_pres: "settled c v d \<Longrightarrow> settled c v (visit1 c w d)"
  unfolding settled_iff
  using collider_approx_coarse [of c w]
  by (simp add: visit1_has_tri visit1_has_mesh_collision visit1_has_collision
      visit1_approximation visit1_collisionEnabled visit1_has_rigid)


lemma fold_settled_pres: "settled c v d \<Longrightarrow> settled c v (fold (visit1 c) ws d)"
  by (induction ws arbitrary: d) (simp_all add: settled_pres)

lemma fold_settled: "v \<in> set vs \<Longrightarrow> settled c v (fold (visit1 c) vs d)"
proof (induction vs arbitrary: d)
  case Nil
  then show ?case by simp
next
  case (Cons w ws)
  show ?case
  proof (cases "v = w")
    case True
    then show ?thesis
      by (simp add: fold_settled_pres settled_visit1)
  next
    case False
    with Cons.prems have "v \<in> set ws" by simp
    then show ?thesis by (simp add: Cons.IH)
  qed
qed

lemma fold_fix: "(\<And>v. v \<in> set vs \<Longrightarrow> settled c v d) \<Longrightarrow> fold (visit1 c) vs d = d"
  by (induction vs) (simp_all add: settled_fix)

lemma fold_visit1_idem:
  "fold (visit1 c) vs (fold (visit1 c) vs d) = fold (visit1 c) vs d"
  by (rule fold_fix) (rule fold_settled)

lemma collide_set_invisible:
  "collide a (set_invisible d) = set_invisible (collide a d)"
  by (simp add: collide_def set_invisible_def apply_api_def has_api_def is_a_mesh_def
      is_a_gprim_def Let_def)

lemma attach_set_invisible:
  "attach_rigid_body (set_invisible d) = set_invisible (attach_rigid_body d)"
  by (simp add: attach_rigid_body_def set_invisible_def apply_api_def has_api_def)

lemma visit1_set_invisible:
  "visit1 c v (set_invisible d) = set_invisible (visit1 c v d)"
  by (auto simp: visit1_def Let_def collide_set_invisible attach_set_invisible)

lemma visit1_hide1: "visit1 c v (hide1 s r h d) = hide1 s r h (visit1 c v d)"
proof -
  have "in_traversal s r (visit1 c v d) = in_traversal s r d"
    by (rule in_traversal_path) simp
  moreover have "name_matches ms (visit1 c v d) = name_matches ms d" for ms
    by (rule name_matches_path) simp
  ultimately show ?thesis
    by (auto simp: hide1_def visit1_set_invisible)
qed

lemma fold_visit1_hide1:
  "fold (visit1 c) vs (hide1 s r h d) = hide1 s r h (fold (visit1 c) vs d)"
  by (induction vs arbitrary: d) (simp_all add: visit1_hide1)

lemma hide1_idem: "hide1 s r h (hide1 s r h d) = hide1 s r h d"
proof -
  have "in_traversal s r (set_invisible d) = in_traversal s r d"
    by (rule in_traversal_path) simp
  moreover have "name_matches ms (set_invisible d) = name_matches ms d" for ms
    by (rule name_matches_path) simp
  ultimately show ?thesis
    by (auto simp: hide1_def)
qed

lemma pass1_idem: "pass1 s r c h (pass1 s r c h d) = pass1 s r c h d"
  by (simp add: pass1_def fold_visit1_hide1 hide1_idem fold_visit1_idem)


lemma hide1_map:
  assumes "\<And>p. path (g p) = path p"
  shows "hide1 (map g s) r h = hide1 s r h"
  by (rule ext) (simp add: hide1_def in_traversal_map [OF assms])

lemma pass1_map:
  assumes "\<And>p. path (g p) = path p" "\<And>p. typeName (g p) = typeName p"
  shows "pass1 (map g s) r c h = pass1 s r c h"
  by (rule ext)
    (simp add: pass1_def hide1_map [OF assms(1)] traversal_map [OF assms(1)]
      fold_visit1_map [OF assms])

lemma pass1_typeName [simp]: "typeName (pass1 s r c h d) = typeName d"
  by (simp add: pass1_def)


lemma modify_environment_idem:
  "modify_environment (modify_environment s r c h) r c h = modify_environment s r c h"
proof -
  have eq: "pass1 (map (pass1 s r c h) s) r c h = pass1 s r c h"
    by (rule pass1_map) simp_all
  have "modify_environment (modify_environment s r c h) r c h
      = map (pass1 (map (pass1 s r c h) s) r c h) (map (pass1 s r c h) s)"
    by (simp only: modify_environment_map)
  also have "\<dots> = map (pass1 s r c h) (map (pass1 s r c h) s)"
    by (simp only: eq)
  also have "\<dots> = map (pass1 s r c h) s"
    by (simp only: map_map comp_def pass1_idem)
  also have "\<dots> = modify_environment s r c h"
    by (simp only: modify_environment_map)
  finally show ?thesis .
qed

lemma distinct_count_list: "distinct xs \<Longrightarrow> count_list xs a \<le> 1"
  by (induction xs) (auto simp: count_list_0_iff)

lemma collide_distinct: "distinct (apiSchemas d) \<Longrightarrow> distinct (apiSchemas (collide a d))"
  by (auto simp: collide_def has_api_def apply_api_def Let_def is_a_mesh_def is_a_gprim_def)

lemma attach_distinct:
  "distinct (apiSchemas d) \<Longrightarrow> distinct (apiSchemas (attach_rigid_body d))"
  by (simp add: attach_rigid_body_def has_api_def apply_api_def)

lemma visit1_distinct: "distinct (apiSchemas d) \<Longrightarrow> distinct (apiSchemas (visit1 c v d))"
  by (simp add: visit1_def Let_def collide_distinct attach_distinct)

lemma fold_visit1_distinct:
  "distinct (apiSchemas d) \<Longrightarrow> distinct (apiSchemas (fold (visit1 c) vs d))"
  by (induction vs arbitrary: d) (simp_all add: visit1_distinct)

lemma pass1_distinct: "distinct (apiSchemas d) \<Longrightarrow> distinct (apiSchemas (pass1 s r c h d))"
  by (simp add: pass1_def fold_visit1_distinct)

lemma fold_visit1_has_rigid:
  "has_api (fold (visit1 c) vs d) RigidBodyAPI
     = (has_api d RigidBodyAPI \<or>
        list_ex (\<lambda>v. is_a_mesh v \<and> name_matches rigid_body_types v \<and> path d = path v) vs)"
proof (induction vs arbitrary: d)
  case Nil
  show ?case by simp
next
  case (Cons v vs)
  show ?case
    unfolding fold_simps Cons.IH [of "visit1 c v d"] visit1_has_rigid
    by (simp only: visit1_path list_ex_Cons_iff) blast
qed

lemma pass1_has_rigid:
  "has_api (pass1 s r c h d) RigidBodyAPI
     = (has_api d RigidBodyAPI \<or>
        list_ex (\<lambda>v. is_a_mesh v \<and> name_matches rigid_body_types v \<and> path d = path v)
          (traversal s r))"
  by (simp add: pass1_def fold_visit1_has_rigid)

lemma count_list_one: "distinct xs \<Longrightarrow> a \<in> set xs \<Longrightarrow> count_list xs a = 1"
  using distinct_count_list [of xs a] count_list_0_iff [of xs a] by simp

subsection \<open>The example scenes\<close>

lemma wall_scene_nth:
  "length wall_scene = 3"
  "wall_scene ! 0 = mk_prim [''Environment''] Xform"
  "wall_scene ! 1 = mk_prim [''Environment'', ''room_wall''] Mesh"
  "wall_scene ! Suc 0 = mk_prim [''Environment'', ''room_wall''] Mesh"
  "wall_scene ! 2 = mk_prim [''Environment'', ''room_wall'', ''Lamp''] Mesh"
  by (simp_all add: wall_scene_def)

lemma mk_prim_fields [simp]:
  "path (mk_prim pth ty) = pth" "typeName (mk_prim pth ty) = ty"
  "apiSchemas (mk_prim pth ty) = []" "visibility (mk_prim pth ty) = ''inherited''"
  "approximation (mk_prim pth ty) = None" "collisionEnabled (mk_prim pth ty) = None"
  by (simp_all add: mk_prim_def)

lemma has_api_mk_prim [simp]: "\<not> has_api (mk_prim pth ty) a"
  by (simp add: has_api_def)

lemma list_ex_False [simp]: "\<not> list_ex (\<lambda>v. False) xs"
  by (simp add: list_ex_iff)

lemma wall_scene_root: "root_prim_path wall_scene (Some env_path) = Some env_path"
  by (simp add: root_prim_path_def get_prim_at_path_def wall_scene_def env_path_def)

lemma wall_scene_in_traversal:
  "in_traversal wall_scene (Some env_path) p = prefix env_path (path p)"
  by (simp add: in_traversal_def wall_scene_root)

lemma wall_scene_traversal: "traversal wall_scene (Some env_path) = wall_scene"
  unfolding traversal_def wall_scene_in_traversal
  by (simp add: wall_scene_def env_path_def)

lemma name_room_wall: "name_matches fine_collider_types (mk_prim [''Environment'', ''room_wall''] Mesh)"
  by (simp add: name_matches_def get_name_def fine_collider_types_def sublist_Cons_right)

lemma name_lamp: "\<not> name_matches fine_collider_types (mk_prim [''Environment'', ''room_wall'', ''Lamp''] Mesh)"
  by (simp add: name_matches_def get_name_def fine_collider_types_def sublist_Cons_right)

lemma chair_scene_nth:
  "length chair_scene = 2"
  "chair_scene ! 0 = mk_prim [''Environment''] Xform"
  "chair_scene ! 1 = mk_prim [''Environment'', ''Chair_03''] Mesh"
  "chair_scene ! Suc 0 = mk_prim [''Environment'', ''Chair_03''] Mesh"
  by (simp_all add: chair_scene_def)

lemma chair_scene_root: "root_prim_path chair_scene (Some env_path) = Some env_path"
  by (simp add: root_prim_path_def get_prim_at_path_def chair_scene_def env_path_def)

lemma chair_scene_in_traversal:
  "in_traversal chair_scene (Some env_path) p = prefix env_path (path p)"
  by (simp add: in_traversal_def chair_scene_root)

lemma chair_scene_traversal: "traversal chair_scene (Some env_path) = chair_scene"
  unfolding traversal_def chair_scene_in_traversal
  by (simp add: chair_scene_def env_path_def)

lemma name_chair:
  "\<not> name_matches fine_collider_types (mk_prim [''Environment'', ''Chair_03''] Mesh)"
  "name_matches rigid_body_types (mk_prim [''Environment'', ''Chair_03''] Mesh)"
  by (simp_all add: name_matches_def get_name_def fine_collider_types_def rigid_body_types_def
      sublist_Cons_right)

lemma lamp_scene_nth:
  "length lamp_scene = 3"
  "lamp_scene ! 0 = mk_prim [''Environment''] Xform"
  "lamp_scene ! 1 = mk_prim [''Environment'', ''Lamp''] Mesh"
  "lamp_scene ! Suc 0 = mk_prim [''Environment'', ''Lamp''] Mesh"
  "lamp_scene ! 2 = mk_prim [''Environment'', ''Lamp'', ''x_wall''] Mesh"
  by (simp_all add: lamp_scene_def)

lemma lamp_scene_root: "root_prim_path lamp_scene (Some env_path) = Some env_path"
  by (simp add: root_prim_path_def get_prim_at_path_def lamp_scene_def env_path_def)

lemma lamp_scene_in_traversal:
  "in_traversal lamp_scene (Some env_path) p = prefix env_path (path p)"
  by (simp add: in_traversal_def lamp_scene_root)

lemma lamp_scene_traversal: "traversal lamp_scene (Some env_path) = lamp_scene"
  unfolding traversal_def lamp_scene_in_traversal
  by (simp add: lamp_scene_def env_path_def)

lemma name_lamp_scene:
  "\<not> name_matches fine_collider_types (mk_prim [''Environment'', ''Lamp''] Mesh)"
  "name_matches fine_collider_types (mk_prim [''Environment'', ''Lamp'', ''x_wall''] Mesh)"
  by (simp_all add: name_matches_def get_name_def fine_collider_types_def sublist_Cons_right)

lemma light_scene_nth:
  "length light_scene = 5"
  "light_scene ! 2 =
     mk_prim [''Environment'', ''Light_001_SPLIT_GLA'', ''Shade_001_SPLIT_GLA''] Mesh"
  "light_scene ! 3 = mk_prim [''Environment'', ''north_exterior''] Xform"
  "light_scene ! 4 = mk_prim [''Environment'', ''room_ceiling_001_SPLIT_GLA''] Xform"
  by (simp_all add: light_scene_def)

lemma light_scene_root: "root_prim_path light_scene (Some env_path) = Some env_path"
  by (simp add: root_prim_path_def get_prim_at_path_def light_scene_def env_path_def)

lemma light_scene_in_traversal:
  "in_traversal light_scene (Some env_path) p = prefix env_path (path p)"
  by (simp add: in_traversal_def light_scene_root)

lemma name_light:
  "name_matches [''001_SPLIT_GLA'']
     (mk_prim [''Environment'', ''Light_001_SPLIT_GLA'', ''Shade_001_SPLIT_GLA''] Mesh)"
  "\<not> name_matches [''001_SPLIT_GLA''] (mk_prim [''Environment'', ''north_exterior''] Xform)"
  "name_matches [''_exterior'', ''_ceiling''] (mk_prim [''Environment'', ''north_exterior''] Xform)"
  "name_matches [''001_SPLIT_GLA'']
     (mk_prim [''Environment'', ''room_ceiling_001_SPLIT_GLA''] Xform)"
  "name_matches [''_exterior'', ''_ceiling'']
     (mk_prim [''Environment'', ''room_ceiling_001_SPLIT_GLA''] Xform)"
  by (simp_all add: name_matches_def get_name_def sublist_Cons_right)

section \<open>The mutation pass\<close>

text \<open>In the theorems of this section the prims of a stage are addressed by their
  position \<open>i\<close> in the stage: the pass keeps the number and the order of the prims, so
  prim \<open>i\<close> after the pass is prim \<open>i\<close> before it. A prim is under the root of the pass
  when \<open>in_traversal s r\<close> holds for it.\<close>

text \<open>C1. One run of \<^verbatim>\<open>modify_environment\<close> alters no transform attribute: translate,
  rotateXYZ, scale and orient of every prim are after the pass what they were before,
  no prim is added or removed, and the snapshot that \<^verbatim>\<open>capture_transforms\<close> takes is
  the same before and after. The pass changes nothing but the visibility, the applied
  schemas and the two physics attributes: with these blanked (\<open>outside_markers\<close>), the
  stage after the pass is the stage before it.\<close>

theorem modify_environment_keeps_transforms:
  "length (modify_environment s r c h) = length s
   \<and> map path (modify_environment s r c h) = map path s
   \<and> map xformOp_translate (modify_environment s r c h) = map xformOp_translate s
   \<and> map xformOp_rotateXYZ (modify_environment s r c h) = map xformOp_rotateXYZ s
   \<and> map xformOp_scale (modify_environment s r c h) = map xformOp_scale s
   \<and> map xformOp_orient (modify_environment s r c h) = map xformOp_orient s
   \<and> map outside_markers (modify_environment s r c h) = map outside_markers s
   \<and> capture_transforms (modify_environment s r c h) rp = capture_transforms s rp"
  using outside_markers_fields [OF pass1_frame [of s r c h]]
  by (simp add: modify_environment_map pass1_frame capture_transforms_map)

text \<open>The theorem at the wall scene.\<close>

theorem modify_environment_keeps_transforms_witness:
  "map xformOp_translate (modify_environment wall_scene (Some env_path) ''convexHull'' True)
     = [Some [0, 0, 0], Some [0, 0, 0], Some [0, 0, 0]]
   \<and> capture_transforms (modify_environment wall_scene (Some env_path) ''convexHull'' True)
       env_path = capture_transforms wall_scene env_path"
  using modify_environment_keeps_transforms
    [of wall_scene "Some env_path" "''convexHull''" True env_path]
  by (simp add: wall_scene_def mk_prim_def)




text \<open>C3, as amended. Let a mesh under the root have a name without fine-collider marker,
  and let \<open>c\<close> be the coarse approximation of the caller. If \<open>c\<close> is not
  \<^verbatim>\<open>triangleMesh\<close>, then after the pass the mesh carries the mesh collision schema with
  the approximation \<open>c\<close>, and it carries the PhysX triangle-mesh schema exactly if it
  carried it before or a mesh of the traversal at or above it has a fine-collider name
  (\<^verbatim>\<open>add_colliders\<close> works on the whole subtree of the mesh it is called for). If
  \<open>c\<close> is \<^verbatim>\<open>triangleMesh\<close>, the mesh carries the PhysX triangle-mesh schema after the
  pass, and its mesh collision schema and its approximation attribute are what they were
  before: the pass writes no approximation attribute then.\<close>

theorem coarse_mesh_resolution:
  assumes "i < length s" and "in_traversal s r (s ! i)" and "is_a_mesh (s ! i)"
    and "\<not> name_matches fine_collider_types (s ! i)"
  shows "(c \<noteq> triangleMesh \<longrightarrow>
            approximation (modify_environment s r c h ! i) = Some c
          \<and> has_api (modify_environment s r c h ! i) MeshCollisionAPI
          \<and> has_api (modify_environment s r c h ! i) PhysxTriangleMeshCollisionAPI
              = (has_api (s ! i) PhysxTriangleMeshCollisionAPI
                 \<or> list_ex (\<lambda>v. is_a_mesh v \<and> prefix (path v) (path (s ! i))
                       \<and> name_matches fine_collider_types v) (traversal s r)))
       \<and> (c = triangleMesh \<longrightarrow>
            has_api (modify_environment s r c h ! i) PhysxTriangleMeshCollisionAPI
          \<and> approximation (modify_environment s r c h ! i) = approximation (s ! i)
          \<and> has_api (modify_environment s r c h ! i) MeshCollisionAPI
              = has_api (s ! i) MeshCollisionAPI)"
proof -
  have own: "collider_approx c (s ! i) = c"
    using assms(4) by (simp add: collider_approx_def)
  have a: "c \<noteq> triangleMesh \<Longrightarrow> list_ex (\<lambda>v. is_a_mesh v \<and> prefix (path v) (path (s ! i))
      \<and> collider_approx c v \<noteq> triangleMesh) (traversal s r)"
    using own_visit [OF assms(1-3), of "\<lambda>v. collider_approx c v \<noteq> triangleMesh"] own by simp
  have b: "c = triangleMesh \<Longrightarrow> list_ex (\<lambda>v. is_a_mesh v \<and> prefix (path v) (path (s ! i))
      \<and> collider_approx c v = triangleMesh) (traversal s r)"
    using own_visit [OF assms(1-3), of "\<lambda>v. collider_approx c v = triangleMesh"] own by simp
  have e: "c \<noteq> triangleMesh \<Longrightarrow>
      (collider_approx c v = triangleMesh) = name_matches fine_collider_types v" for v
    by (simp add: collider_approx_def)
  have t: "collider_approx triangleMesh v = triangleMesh" for v
    by (simp add: collider_approx_def)
  have first: "c \<noteq> triangleMesh \<longrightarrow>
            approximation (modify_environment s r c h ! i) = Some c
          \<and> has_api (modify_environment s r c h ! i) MeshCollisionAPI
          \<and> has_api (modify_environment s r c h ! i) PhysxTriangleMeshCollisionAPI
              = (has_api (s ! i) PhysxTriangleMeshCollisionAPI
                 \<or> list_ex (\<lambda>v. is_a_mesh v \<and> prefix (path v) (path (s ! i))
                       \<and> name_matches fine_collider_types v) (traversal s r))"
    using a assms(3)
    by (simp add: modify_environment_nth [OF assms(1)] pass1_has_tri pass1_has_mesh_collision
        pass1_approximation e)
  have second: "c = triangleMesh \<longrightarrow>
            has_api (modify_environment s r c h ! i) PhysxTriangleMeshCollisionAPI
          \<and> approximation (modify_environment s r c h ! i) = approximation (s ! i)
          \<and> has_api (modify_environment s r c h ! i) MeshCollisionAPI
              = has_api (s ! i) MeshCollisionAPI"
  proof
    assume c: "c = triangleMesh"
    show "has_api (modify_environment s r c h ! i) PhysxTriangleMeshCollisionAPI
          \<and> approximation (modify_environment s r c h ! i) = approximation (s ! i)
          \<and> has_api (modify_environment s r c h ! i) MeshCollisionAPI
              = has_api (s ! i) MeshCollisionAPI"
      using b [OF c] assms(3) unfolding c
      by (simp add: modify_environment_nth [OF assms(1)] pass1_has_tri
          pass1_has_mesh_collision pass1_approximation t)
  qed
  show ?thesis
    using first second by blast
qed

text \<open>The theorem at the chair of the chair scene: convex hull, no triangle mesh.\<close>

theorem coarse_mesh_resolution_witness:
  "1 < length chair_scene
   \<and> in_traversal chair_scene (Some env_path) (chair_scene ! 1)
   \<and> is_a_mesh (chair_scene ! 1)
   \<and> \<not> name_matches fine_collider_types (chair_scene ! 1)
   \<and> approximation (modify_environment chair_scene (Some env_path) ''convexHull'' True ! 1)
        = Some ''convexHull''
   \<and> has_api (modify_environment chair_scene (Some env_path) ''convexHull'' True ! 1)
        MeshCollisionAPI
   \<and> \<not> has_api (modify_environment chair_scene (Some env_path) ''convexHull'' True ! 1)
        PhysxTriangleMeshCollisionAPI"
proof -
  have a: "1 < length chair_scene"
    by (simp add: chair_scene_nth)
  have b: "in_traversal chair_scene (Some env_path) (chair_scene ! 1)"
    unfolding chair_scene_in_traversal by (simp add: chair_scene_nth env_path_def)
  have c: "is_a_mesh (chair_scene ! 1)"
    by (simp add: chair_scene_nth is_a_mesh_def)
  have d: "\<not> name_matches fine_collider_types (chair_scene ! 1)"
    by (simp add: chair_scene_nth name_chair)
  have e: "''convexHull'' \<noteq> triangleMesh"
    by (simp add: triangleMesh_def)
  have f: "\<not> list_ex (\<lambda>v. is_a_mesh v \<and> prefix (path v) (path (chair_scene ! 1))
      \<and> name_matches fine_collider_types v) (traversal chair_scene (Some env_path))"
    unfolding chair_scene_traversal
    by (simp add: chair_scene_def name_chair is_a_mesh_def)
  have g: "\<not> has_api (chair_scene ! 1) PhysxTriangleMeshCollisionAPI"
    by (simp add: chair_scene_nth has_api_def)
  show ?thesis
    using coarse_mesh_resolution [OF a b c d, of "''convexHull''" True] a b c d e f g
    by blast
qed

text \<open>C3 as stated fails, in two places. In the wall scene the mesh \<^verbatim>\<open>Lamp\<close> has no
  fine-collider marker in its name and the default is \<^verbatim>\<open>convexHull\<close>, but it lies
  below the mesh \<^verbatim>\<open>room_wall\<close>, and the call of \<^verbatim>\<open>add_colliders\<close> for \<^verbatim>\<open>room_wall\<close>
  applies the PhysX triangle-mesh schema to it. And with the default \<^verbatim>\<open>triangleMesh\<close>
  the chair of the chair scene gets no mesh-approximation marker that holds the default:
  it has no mesh collision schema and no approximation attribute after the pass.\<close>

theorem coarse_mesh_below_fine_mesh_gets_triangle_marker:
  "is_a_mesh (wall_scene ! 2)
   \<and> in_traversal wall_scene (Some env_path) (wall_scene ! 2)
   \<and> \<not> name_matches fine_collider_types (wall_scene ! 2)
   \<and> ''convexHull'' \<noteq> triangleMesh
   \<and> \<not> has_api (wall_scene ! 2) PhysxTriangleMeshCollisionAPI
   \<and> has_api (modify_environment wall_scene (Some env_path) ''convexHull'' True ! 2)
        PhysxTriangleMeshCollisionAPI
   \<and> is_a_mesh (chair_scene ! 1)
   \<and> in_traversal chair_scene (Some env_path) (chair_scene ! 1)
   \<and> \<not> name_matches fine_collider_types (chair_scene ! 1)
   \<and> approximation (modify_environment chair_scene (Some env_path) triangleMesh True ! 1)
        = None
   \<and> \<not> has_api (modify_environment chair_scene (Some env_path) triangleMesh True ! 1)
        MeshCollisionAPI"
proof -
  have "wall_scene ! 1 \<in> set (traversal wall_scene (Some env_path))"
    by (simp add: wall_scene_traversal) (simp add: wall_scene_def)
  moreover have "is_a_mesh (wall_scene ! 1)"
    by (simp add: wall_scene_nth is_a_mesh_def)
  moreover have "prefix (path (wall_scene ! 1)) (path (wall_scene ! 2))"
    by (simp add: wall_scene_nth)
  moreover have "collider_approx ''convexHull'' (wall_scene ! 1) = triangleMesh"
    by (simp add: wall_scene_nth collider_approx_def name_room_wall)
  ultimately have "list_ex (\<lambda>v. is_a_mesh v \<and> prefix (path v) (path (wall_scene ! 2))
      \<and> collider_approx ''convexHull'' v = triangleMesh) (traversal wall_scene (Some env_path))"
    unfolding list_ex_iff by blast
  then have w1: "has_api (modify_environment wall_scene (Some env_path) ''convexHull'' True ! 2)
        PhysxTriangleMeshCollisionAPI"
    by (simp add: modify_environment_nth wall_scene_nth(1) pass1_has_tri)
      (simp add: wall_scene_nth is_a_mesh_def)
  have w2: "\<not> has_api (wall_scene ! 2) PhysxTriangleMeshCollisionAPI"
    by (simp add: wall_scene_nth has_api_def)
  have w3: "''convexHull'' \<noteq> triangleMesh"
    by (simp add: triangleMesh_def)
  have w4: "in_traversal wall_scene (Some env_path) (wall_scene ! 2)"
    unfolding wall_scene_in_traversal by (simp add: wall_scene_nth env_path_def)
  have w5: "is_a_mesh (wall_scene ! 2)" "\<not> name_matches fine_collider_types (wall_scene ! 2)"
    by (simp_all add: wall_scene_nth name_lamp is_a_mesh_def)
  have t: "collider_approx triangleMesh v = triangleMesh" for v
    by (simp add: collider_approx_def)
  have len: "1 < length chair_scene"
    by (simp add: chair_scene_nth)
  have c1: "approximation (modify_environment chair_scene (Some env_path) triangleMesh True ! 1)
        = None"
    "\<not> has_api (modify_environment chair_scene (Some env_path) triangleMesh True ! 1)
        MeshCollisionAPI"
    unfolding modify_environment_nth [OF len]
    by (simp_all add: pass1_approximation pass1_has_mesh_collision t chair_scene_nth)
  have c2: "in_traversal chair_scene (Some env_path) (chair_scene ! 1)"
    unfolding chair_scene_in_traversal by (simp add: chair_scene_nth env_path_def)
  have c3: "is_a_mesh (chair_scene ! 1)" "\<not> name_matches fine_collider_types (chair_scene ! 1)"
    by (simp_all add: chair_scene_nth name_chair is_a_mesh_def)
  show ?thesis
    using w1 w2 w3 w4 w5 c1 c2 c3 by blast
qed




text \<open>C5. Running \<^verbatim>\<open>modify_environment\<close> twice in succession gives the stage that one
  run gives: the second run applies no schema, changes no attribute and no visibility.
  For a prim whose applied schemas are listed once each before the pass (as USD keeps
  them), they are listed once each after one pass and after two, so every capability
  marker is present at most once; a mesh under the root with a rigid-body marker in its
  name carries the rigid-body schema exactly once after two passes.\<close>

theorem modify_environment_idempotent:
  assumes "i < length s" and "distinct (apiSchemas (s ! i))"
  shows "modify_environment (modify_environment s r c h) r c h = modify_environment s r c h
    \<and> map visibility (modify_environment (modify_environment s r c h) r c h)
        = map visibility (modify_environment s r c h)
    \<and> distinct (apiSchemas (modify_environment s r c h ! i))
    \<and> distinct (apiSchemas (modify_environment (modify_environment s r c h) r c h ! i))
    \<and> count_list (apiSchemas (modify_environment (modify_environment s r c h) r c h ! i)) a
        \<le> 1
    \<and> (in_traversal s r (s ! i) \<and> is_a_mesh (s ! i) \<and> name_matches rigid_body_types (s ! i)
        \<longrightarrow> count_list
              (apiSchemas (modify_environment (modify_environment s r c h) r c h ! i))
              RigidBodyAPI = 1)"
proof -
  have d: "distinct (apiSchemas (modify_environment s r c h ! i))"
    by (simp add: modify_environment_nth [OF assms(1)] pass1_distinct [OF assms(2)])
  have rigid: "has_api (modify_environment s r c h ! i) RigidBodyAPI"
    if "in_traversal s r (s ! i)" "is_a_mesh (s ! i)" "name_matches rigid_body_types (s ! i)"
  proof -
    have "list_ex (\<lambda>v. is_a_mesh v \<and> name_matches rigid_body_types v \<and> path (s ! i) = path v)
        (traversal s r)"
      unfolding list_ex_iff using in_traversal_mem [OF assms(1) that(1)] that(2,3) by auto
    then show ?thesis
      by (simp add: modify_environment_nth [OF assms(1)] pass1_has_rigid)
  qed
  show ?thesis
    unfolding modify_environment_idem
    using d distinct_count_list [OF d, of a] rigid count_list_one [OF d, of RigidBodyAPI]
    by (simp add: has_api_def)
qed

text \<open>The theorem at the chair of the chair scene.\<close>

theorem modify_environment_idempotent_witness:
  "1 < length chair_scene
   \<and> distinct (apiSchemas (chair_scene ! 1))
   \<and> modify_environment (modify_environment chair_scene (Some env_path) ''convexHull'' True)
         (Some env_path) ''convexHull'' True
       = modify_environment chair_scene (Some env_path) ''convexHull'' True
   \<and> count_list
        (apiSchemas
          (modify_environment (modify_environment chair_scene (Some env_path) ''convexHull'' True)
             (Some env_path) ''convexHull'' True ! 1))
        RigidBodyAPI = 1"
proof -
  have a: "1 < length chair_scene"
    by (simp add: chair_scene_nth)
  have b: "distinct (apiSchemas (chair_scene ! 1))"
    by (simp add: chair_scene_nth)
  have c: "in_traversal chair_scene (Some env_path) (chair_scene ! 1)"
    unfolding chair_scene_in_traversal by (simp add: chair_scene_nth env_path_def)
  have d: "is_a_mesh (chair_scene ! 1)" "name_matches rigid_body_types (chair_scene ! 1)"
    by (simp_all add: chair_scene_nth is_a_mesh_def name_chair)
  show ?thesis
    using modify_environment_idempotent
      [OF a b, of "Some env_path" "''convexHull''" True RigidBodyAPI] a b c d
    by blast
qed

section \<open>The verifier\<close>

lemma transforms_are_equal_dict:
  "transforms_are_equal (PyDict a) (PyDict b) tolerance = (a = b)"
  by simp

text \<open>C4. The claim: \<^verbatim>\<open>verify_positions_unchanged\<close> compares the two records of a path
  with a tolerance of 1e-6 on the translate value, so that two records whose translate
  values differ by less than 1e-6 count as unchanged. The code hands the two dicts to
  \<^verbatim>\<open>transforms_are_equal\<close>; a dict has no \<^verbatim>\<open>__sub__\<close>, so the comparison is the
  exact \<^verbatim>\<open>==\<close> of the dicts and the tolerance is never applied. Here the two snapshots
  differ by \<open>2\<^sup>-\<^sup>2\<^sup>0\<close> (less than 1e-6) in one coordinate of the translate value of
  \<^verbatim>\<open>/Environment/a\<close>: the verifier reports the prim as moved and returns false.\<close>

theorem verify_positions_unchanged_ignores_tolerance:
  "\<bar>hd (translate (snd (hd snap_before))) - hd (translate (snd (hd snap_after)))\<bar>
      < (1 / 1000000 :: real)
   \<and> verify_positions_unchanged snap_before snap_after
      = ([YELLOW @ ''Position changed for: /Environment/a'' @ RESET,
          '' Position verification: 1/1 objects moved''],
         False)"
  by (simp add: verify_positions_unchanged_def snap_before_def snap_after_def)

text \<open>C10. When no valid prim exists at the root path, \<^verbatim>\<open>capture_transforms\<close> returns
  the empty mapping; the verifier run on two such snapshots checks no path, detects no
  change, prints that all 0 object positions are preserved, and returns true.\<close>

theorem capture_transforms_invalid_root:
  assumes "get_prim_at_path s1 root1 = None" and "get_prim_at_path s2 root2 = None"
  shows "capture_transforms s1 root1 = []
    \<and> capture_transforms s2 root2 = []
    \<and> verify_loop (capture_transforms s1 root1) (capture_transforms s2 root2) (0, 0, [])
        = (0, 0, [])
    \<and> verify_positions_unchanged (capture_transforms s1 root1) (capture_transforms s2 root2)
        = ([ '' Position verification: All 0 object positions preserved''], True)"
  using assms by (simp add: capture_transforms_def verify_positions_unchanged_def)

theorem capture_transforms_invalid_root_witness:
  "get_prim_at_path [] env_path = None
   \<and> get_prim_at_path [mk_prim [''World''] Xform] env_path = None
   \<and> capture_transforms [mk_prim [''World''] Xform] env_path = []
   \<and> verify_positions_unchanged (capture_transforms [] env_path)
        (capture_transforms [mk_prim [''World''] Xform] env_path)
       = ([ '' Position verification: All 0 object positions preserved''], True)"
proof -
  have a: "get_prim_at_path [] env_path = None"
    by (simp add: get_prim_at_path_def env_path_def)
  have b: "get_prim_at_path [mk_prim [''World''] Xform] env_path = None"
    by (simp add: get_prim_at_path_def mk_prim_def env_path_def)
  show ?thesis
    using capture_transforms_invalid_root [OF a b] a b by blast
qed

section \<open>Setup and script\<close>

lemma calls_simps [simp]:
  "calls [] = []"
  "calls (Print x # es) = calls es"
  "calls (SimulationApp_start # es) = SimulationApp_start # calls es"
  "calls (New_stage # es) = New_stage # calls es"
  "calls (Load_env f # es) = Load_env f # calls es"
  "calls (Set_default_prim p # es) = Set_default_prim p # calls es"
  "calls (App_update # es) = App_update # calls es"
  "calls (Resolve_scale_issues # es) = Resolve_scale_issues # calls es"
  "calls (Sys_exit n # es) = Sys_exit n # calls es"
  "calls (xs @ ys) = calls xs @ calls ys"
  by (simp_all add: calls_def)

lemma calls_map_Print [simp]: "calls (map Print out) = []"
  by (induction out) simp_all

lemma calls_verify_and_finish: "calls (verify_and_finish s initial) = [Resolve_scale_issues]"
  by (simp add: verify_and_finish_def setup_completion_def Let_def split: prod.splits)

lemma calls_setup_default_prim:
  "calls (fst (setup_default_prim s p))
     = (if get_prim_at_path s p = None then [] else [Set_default_prim p])"
  by (simp add: setup_default_prim_def split: option.splits)

lemma calls_setup:
  "calls (fst (setup_infinigen_scene w f c h))
     = [New_stage, Load_env f]
       @ (if get_prim_at_path (snd (load_env w f)) env_path = None then []
          else [Set_default_prim env_path])
       @ [App_update, Resolve_scale_issues]"
  by (simp add: setup_infinigen_scene_def Let_def calls_verify_and_finish
      calls_setup_default_prim split: prod.splits option.splits)

text \<open>C7. Whatever the verifier finds, the setup goes on: for every stage and every
  initial snapshot (so for every outcome of the verification, moved prims included) the
  steps from the verification on print the lines of the verifier and then the line
  \<^verbatim>\<open>Environment setup complete.\<close>, call the scale fix-up and print the closing lines;
  the events of \<^verbatim>\<open>setup_infinigen_scene\<close> end in the same way for every world and all
  arguments. The boolean of the verifier occurs nowhere in what follows it.\<close>

theorem setup_completes_whatever_the_verifier_returns:
  "(\<exists>pre. verify_and_finish s initial =
       pre @ [Print ''Environment setup complete.'', Print ''Resolving scaling issues...'',
              Resolve_scale_issues, Print ''Scaling issues resolved'',
              Print ''All setup completed'', Print ''=== Environment Setup Complete! ==='']
       \<and> pre = Print ''Verifying object positions...''
           # map Print (fst (verify_positions_unchanged initial (capture_transforms s env_path))))
   \<and> (\<exists>pre. fst (setup_infinigen_scene w f c h) =
       pre @ [Print ''Environment setup complete.'', Print ''Resolving scaling issues...'',
              Resolve_scale_issues, Print ''Scaling issues resolved'',
              Print ''All setup completed'', Print ''=== Environment Setup Complete! ==='']
       \<and> Print ''Verifying object positions...'' \<in> set pre)"
proof -
  have a: "verify_and_finish s initial =
      (Print ''Verifying object positions...''
         # map Print (fst (verify_positions_unchanged initial (capture_transforms s env_path))))
      @ setup_completion" for s initial
    by (simp add: verify_and_finish_def Let_def split: prod.splits)
  have b: "\<exists>pre0. fst (setup_infinigen_scene w f c h) = pre0 @ verify_and_finish
      (modify_environment (snd (load_env w f)) (Some env_path) c h)
      (capture_transforms (snd (load_env w f)) env_path)"
    by (simp add: setup_infinigen_scene_def Let_def split: prod.splits)
  then obtain pre0 where pre0: "fst (setup_infinigen_scene w f c h) = pre0 @ verify_and_finish
      (modify_environment (snd (load_env w f)) (Some env_path) c h)
      (capture_transforms (snd (load_env w f)) env_path)" ..
  show ?thesis
  proof (intro conjI)
    show "\<exists>pre. verify_and_finish s initial =
       pre @ [Print ''Environment setup complete.'', Print ''Resolving scaling issues...'',
              Resolve_scale_issues, Print ''Scaling issues resolved'',
              Print ''All setup completed'', Print ''=== Environment Setup Complete! ==='']
       \<and> pre = Print ''Verifying object positions...''
           # map Print (fst (verify_positions_unchanged initial (capture_transforms s env_path)))"
      by (simp add: a setup_completion_def)
    show "\<exists>pre. fst (setup_infinigen_scene w f c h) =
       pre @ [Print ''Environment setup complete.'', Print ''Resolving scaling issues...'',
              Resolve_scale_issues, Print ''Scaling issues resolved'',
              Print ''All setup completed'', Print ''=== Environment Setup Complete! ==='']
       \<and> Print ''Verifying object positions...'' \<in> set pre"
      unfolding pre0 a setup_completion_def
      by (rule exI [of _ "pre0 @ Print ''Verifying object positions...''
          # map Print (fst (verify_positions_unchanged
              (capture_transforms (snd (load_env w f)) env_path)
              (capture_transforms (modify_environment (snd (load_env w f)) (Some env_path) c h)
                 env_path)))"]) simp
  qed
qed

text \<open>The theorem where the verification fails: against the snapshot \<open>snap_moved\<close> the
  verifier reports the chair of the chair scene as moved and returns false, and the setup
  completes all the same.\<close>

lemma chair_scene_capture:
  "capture_transforms chair_scene env_path =
     [(''/Environment'', \<lparr>translate = [0, 0, 0], rotation = None, scale = None, orient = None\<rparr>),
      (''/Environment/Chair_03'',
       \<lparr>translate = [0, 0, 0], rotation = None, scale = None, orient = None\<rparr>)]"
  by (simp add: capture_transforms_def get_prim_at_path_def chair_scene_def env_path_def
      prim_range_def capture_prim_def mk_prim_def path_str_def)

lemma snap_moved_verify:
  "verify_positions_unchanged snap_moved (capture_transforms chair_scene env_path)
     = ([YELLOW @ ''Position changed for: /Environment/Chair_03'' @ RESET,
         '' Position verification: 1/1 objects moved''], False)"
  unfolding chair_scene_capture
  by (simp add: verify_positions_unchanged_def snap_moved_def)

theorem setup_completes_whatever_the_verifier_returns_witness:
  "snd (verify_positions_unchanged snap_moved (capture_transforms chair_scene env_path)) = False
   \<and> verify_and_finish chair_scene snap_moved =
       [Print ''Verifying object positions...'',
        Print (YELLOW @ ''Position changed for: /Environment/Chair_03'' @ RESET),
        Print '' Position verification: 1/1 objects moved'',
        Print ''Environment setup complete.'', Print ''Resolving scaling issues...'',
        Resolve_scale_issues, Print ''Scaling issues resolved'',
        Print ''All setup completed'', Print ''=== Environment Setup Complete! ==='']"
  using setup_completes_whatever_the_verifier_returns
    [of chair_scene snap_moved world_missing_file "''scene.usdc''" "''convexHull''" True]
  by (auto simp: snap_moved_verify)

text \<open>C6, as amended. When the scene file does not exist, the script prints that the file
  was not found and exits with status 1; it calls neither the scene import nor
  \<^verbatim>\<open>new_stage\<close>. The simulation application has been started by then: the only call
  into the engine before the exit is its start, at module level (line 27), which
  precedes the check of the main block (line 282).\<close>

theorem missing_file_exits_without_import:
  assumes "\<not> path_exists w (usd_path a)"
  shows "snd (script w a) = Exited 1
    \<and> fst (script w a) =
        [SimulationApp_start,
         Print (''Using file path: '' @ usd_path a),
         Print (''File not found: '' @ usd_path a),
         Print ''Please check the path and try again.'',
         Sys_exit 1]
    \<and> calls (fst (script w a)) = [SimulationApp_start, Sys_exit 1]
    \<and> Load_env (usd_path a) \<notin> set (fst (script w a))
    \<and> New_stage \<notin> set (fst (script w a))"
  using assms by (simp add: script_def Let_def)

text \<open>The theorem in a world without the file.\<close>

theorem missing_file_exits_without_import_witness:
  "\<not> path_exists world_missing_file (usd_path args0)
   \<and> snd (script world_missing_file args0) = Exited 1
   \<and> calls (fst (script world_missing_file args0)) = [SimulationApp_start, Sys_exit 1]"
proof -
  have a: "\<not> path_exists world_missing_file (usd_path args0)"
    by (simp add: world_missing_file_def)
  show ?thesis
    using missing_file_exits_without_import [OF a] a by blast
qed

text \<open>C6 as stated fails in its last part: in a world without the file the script exits
  with status 1, and the start of the simulation application is among the events that
  precede the exit.\<close>

theorem simulation_app_started_before_file_check:
  "\<not> path_exists world_missing_file (usd_path args0)
   \<and> snd (script world_missing_file args0) = Exited 1
   \<and> SimulationApp_start
       \<in> set (takeWhile (\<lambda>e. e \<noteq> Sys_exit 1) (fst (script world_missing_file args0)))"
  by (simp add: script_def Let_def world_missing_file_def args0_def)

text \<open>C8. When \<^verbatim>\<open>load_env\<close> raises, the setup prints the error and goes on with the
  stage as the failed import left it: it sets up the default prim (or warns), updates the
  application, takes the first snapshot, runs the mutation, verifies and completes. The
  calls into the engine are the new stage, one scene import (no retry, no second new
  stage), the default prim if \<^verbatim>\<open>/Environment\<close> exists, the update and the scale fix-up;
  the script does not exit but reaches the viewer loop.\<close>

theorem load_failure_is_logged_and_setup_continues:
  assumes "load_env w f = (Some e, s)"
  shows "fst (setup_infinigen_scene w f c h) =
        [Print ''=== Starting Infinigen Environment Setup ==='',
         Print (''File: '' @ f),
         Print (''Coarse approximation: '' @ c),
         Print (''Hide walls: '' @ str_bool h),
         Print ''Creating new stage...'',
         New_stage,
         Print (''Loading environment: '' @ f),
         Load_env f,
         Print (RED @ ''Loading failed: '' @ e @ RESET),
         Print ''Setting /Environment as default prim...'']
        @ fst (setup_default_prim s env_path)
        @ [App_update,
           Print ''Capturing initial object positions...'',
           Print (''Captured '' @ str_nat (length (capture_transforms s env_path))
                  @ '' object transforms''),
           Print ''Setting up environment...'']
        @ map Print (modify_environment_output s (Some env_path) h)
        @ verify_and_finish (modify_environment s (Some env_path) c h)
            (capture_transforms s env_path)
    \<and> snd (setup_infinigen_scene w f c h) = modify_environment s (Some env_path) c h
    \<and> calls (fst (setup_infinigen_scene w f c h)) =
        [New_stage, Load_env f]
        @ (if get_prim_at_path s env_path = None then [] else [Set_default_prim env_path])
        @ [App_update, Resolve_scale_issues]
    \<and> (path_exists w f \<and> usd_path a = f \<and> coarse_approximation a = c \<and> hide_walls a = h
        \<longrightarrow> snd (script w a) = Viewer_loop
          \<and> calls (fst (script w a))
              = SimulationApp_start # calls (fst (setup_infinigen_scene w f c h)))"
  using assms calls_setup [of w f c h]
  by (simp add: setup_infinigen_scene_def script_def Let_def)

text \<open>The theorem in a world where the import fails and leaves an empty stage.\<close>

theorem load_failure_is_logged_and_setup_continues_witness:
  "load_env world_failed_load ''scene.usdc'' = (Some ''cannot open layer'', [])
   \<and> path_exists world_failed_load ''scene.usdc''
   \<and> snd (script world_failed_load args0) = Viewer_loop
   \<and> calls (fst (script world_failed_load args0))
       = [SimulationApp_start, New_stage, Load_env ''scene.usdc'', App_update,
          Resolve_scale_issues]
   \<and> Print (RED @ ''Loading failed: cannot open layer'' @ RESET)
       \<in> set (fst (setup_infinigen_scene world_failed_load ''scene.usdc'' ''convexHull'' True))"
proof -
  have a: "load_env world_failed_load ''scene.usdc'' = (Some ''cannot open layer'', [])"
    by (simp add: world_failed_load_def)
  have b: "path_exists world_failed_load ''scene.usdc''"
    by (simp add: world_failed_load_def)
  have c: "usd_path args0 = ''scene.usdc''" "coarse_approximation args0 = ''convexHull''"
    "hide_walls args0 = True"
    by (simp_all add: args0_def)
  have d: "get_prim_at_path [] env_path = None"
    by (simp add: get_prim_at_path_def env_path_def)
  note th = load_failure_is_logged_and_setup_continues [OF a, of "''convexHull''" True args0]
  have m: "Print (RED @ ''Loading failed: cannot open layer'' @ RESET)
      \<in> set (fst (setup_infinigen_scene world_failed_load ''scene.usdc'' ''convexHull'' True))"
    unfolding th [THEN conjunct1] by simp
  show ?thesis
    using th [THEN conjunct2, THEN conjunct2] a b c d m
    by simp
qed

end
